theory Spec2Isabelle
  imports Complex_Main "HOL-Library.Word"
begin

section \<open>Conduit: permission engine, session manager and NDJSON framing\<close>

text \<open>
  A shallow embedding of the parts of Conduit that its specification makes claims about:
  \<^item> \<^verbatim>\<open>src/core/permission-engine.ts\<close>: the glob matcher, rule evaluation, rule update
    and the audit log;
  \<^item> \<^verbatim>\<open>src/core/session-manager.ts\<close>: the port pool, \<^verbatim>\<open>create\<close>, the \<^verbatim>\<open>result\<close> handler and
    \<^verbatim>\<open>handleProcessExit\<close>;
  \<^item> \<^verbatim>\<open>src/bridge/ndjson.ts\<close>: \<^verbatim>\<open>serializeNdjson\<close> and \<^verbatim>\<open>NdjsonParser\<close>;
  \<^item> \<^verbatim>\<open>src/db/database.ts\<close> and \<^verbatim>\<open>src/db/schema.sql\<close>: the store the first two write to.

  JavaScript strings are modelled as \<^typ>\<open>string\<close> (lists of 8-bit characters), thrown
  exceptions as the left summand of a sum type, module-level mutable variables as fields
  of an explicit state.
\<close>

subsection \<open>Errors\<close>

text \<open>Every exception the modelled code can throw or let through.\<close>

datatype error =
    DatabaseNotInitialized   \<comment> \<open>\<^verbatim>\<open>getDb\<close>: "Database not initialized. Call initDatabase() first."\<close>
  | SqliteConstraint         \<comment> \<open>a constraint violation reported by the store\<close>
  | RegExpSyntaxError        \<comment> \<open>\<^verbatim>\<open>new RegExp(...)\<close>: "Nothing to repeat"\<close>
  | RegExpUnsupported        \<comment> \<open>regular-expression syntax outside the fragment modelled here\<close>
  | NoSuchColumn             \<comment> \<open>SQLite: "no such column", for an assignment to a name the table lacks\<close>
  | BindTypeError
      \<comment> \<open>better-sqlite3: "SQLite3 can only bind numbers, strings, bigints, buffers, and null"\<close>
  | ValidationError
  | ConflictError
  | BridgeError              \<comment> \<open>\<^verbatim>\<open>createBridgeServer\<close> rejected (listen failure)\<close>
  | LaunchError string       \<comment> \<open>\<^verbatim>\<open>launchCli\<close> threw; the argument is the message\<close>
  | ConnectTimeout           \<comment> \<open>"CLI failed to connect to bridge within 15s"\<close>
  | ExitedBeforeConnect "54 word option"
      \<comment> \<open>"CLI process exited with code ... before connecting to bridge"; the exit code is
          a number as in \<open>JNumber\<close> below, or \<^verbatim>\<open>null\<close>\<close>

subsection \<open>String helpers of the JavaScript runtime\<close>

text \<open>
  \<^verbatim>\<open>s.split(sep)\<close> for a one-character separator: the pieces between the separators, so
  a string with \<open>n\<close> separators has \<open>n + 1\<close> pieces and the empty string has one.
\<close>

fun split_on :: "char \<Rightarrow> string \<Rightarrow> string list" where
  "split_on sep [] = [[]]"
| "split_on sep (c # cs) =
     (if c = sep then [] # split_on sep cs
      else (case split_on sep cs of
              [] \<Rightarrow> [[c]]
            | p # ps \<Rightarrow> (c # p) # ps))"

text \<open>\<^verbatim>\<open>value.startsWith(prefix)\<close>.\<close>

definition startsWith :: "string \<Rightarrow> string \<Rightarrow> bool" where
  "startsWith v p = (take (length p) v = p)"

subsection \<open>The glob matcher (\<^verbatim>\<open>matchGlob\<close>)\<close>

text \<open>
  \<^verbatim>\<open>pattern.replace(/[.+^${}()|[\]\\]/g, "\\$&")\<close>: a backslash is put in front of each of
  the twelve characters of the class. The question mark and the star are not in the class.
\<close>

definition backslash :: char where
  "backslash = CHR 0x5C"

definition escaped_class :: "char list" where
  "escaped_class =
     [CHR ''.'', CHR ''+'', CHR ''^'', CHR ''$'', CHR ''{'', CHR ''}'', CHR ''('', CHR '')'',
      CHR ''|'', CHR ''['', CHR '']'', backslash]"

fun escape_regex :: "string \<Rightarrow> string" where
  "escape_regex [] = []"
| "escape_regex (c # cs) =
     (if c \<in> set escaped_class then backslash # c # escape_regex cs else c # escape_regex cs)"

text \<open>\<^verbatim>\<open>escaped.replace(/\*/g, ".*")\<close>.\<close>

fun star_to_dotstar :: "string \<Rightarrow> string" where
  "star_to_dotstar [] = []"
| "star_to_dotstar (c # cs) =
     (if c = CHR ''*'' then CHR ''.'' # CHR ''*'' # star_to_dotstar cs else c # star_to_dotstar cs)"

text \<open>
  The fragment of ECMAScript regular expressions that the strings built by \<^verbatim>\<open>matchGlob\<close>
  live in. A term is an atom with a quantifier; a lazy quantifier (\<^verbatim>\<open>??\<close>, \<^verbatim>\<open>*?\<close>) accepts
  the same strings as the greedy one, which is all that \<^verbatim>\<open>regex.test\<close> observes.
\<close>

datatype atom = Lit char | AnyChar

datatype quantifier = One | Opt | Star

datatype regex_term = Term atom quantifier

text \<open>
  The quantifier that follows an atom: \<^verbatim>\<open>*\<close> or \<^verbatim>\<open>?\<close>, each optionally followed by one
  \<^verbatim>\<open>?\<close> that makes it lazy. Returns the quantifier and the number of characters it takes.
\<close>

fun parse_quantifier :: "string \<Rightarrow> quantifier \<times> nat" where
  "parse_quantifier (c # d # rest) =
     (if c = CHR ''*'' then (Star, if d = CHR ''?'' then 2 else 1)
      else if c = CHR ''?'' then (Opt, if d = CHR ''?'' then 2 else 1)
      else (One, 0))"
| "parse_quantifier [c] =
     (if c = CHR ''*'' then (Star, 1) else if c = CHR ''?'' then (Opt, 1) else (One, 0))"
| "parse_quantifier [] = (One, 0)"

text \<open>
  The body of the pattern after the leading \<^verbatim>\<open>^\<close>, up to and including the final \<^verbatim>\<open>$\<close>.
  A quantifier with no atom before it is the syntax error "Nothing to repeat", which
  \<^verbatim>\<open>new RegExp\<close> throws. Unescaped syntax characters other than \<^verbatim>\<open>.\<close>, \<^verbatim>\<open>*\<close>, \<^verbatim>\<open>?\<close> and the
  final \<^verbatim>\<open>$\<close> never occur in a string built by \<^verbatim>\<open>matchGlob\<close>, and a backslash there is always
  followed by a character of the escaped class, which it makes literal.
\<close>

fun parse_terms :: "string \<Rightarrow> error + regex_term list" where
  "parse_terms [] = Inl RegExpUnsupported"
| "parse_terms (c # cs) =
     (if c = CHR ''$'' then (if cs = [] then Inr [] else Inl RegExpUnsupported)
      else if c = CHR ''?'' \<or> c = CHR ''*'' \<or> c = CHR ''+'' then Inl RegExpSyntaxError
      else if c = backslash then
        (case cs of
           [] \<Rightarrow> Inl RegExpSyntaxError
         | d # ds \<Rightarrow>
             if d \<in> set escaped_class then
               (case parse_terms (drop (snd (parse_quantifier ds)) ds) of
                  Inl e \<Rightarrow> Inl e
                | Inr ts \<Rightarrow> Inr (Term (Lit d) (fst (parse_quantifier ds)) # ts))
             else Inl RegExpUnsupported)
      else if c \<in> set escaped_class \<and> c \<noteq> CHR ''.'' then Inl RegExpUnsupported
      else
        (case parse_terms (drop (snd (parse_quantifier cs)) cs) of
           Inl e \<Rightarrow> Inl e
         | Inr ts \<Rightarrow>
             Inr (Term (if c = CHR ''.'' then AnyChar else Lit c) (fst (parse_quantifier cs)) # ts)))"

text \<open>\<^verbatim>\<open>new RegExp(source)\<close> for a source that starts with the anchor \<^verbatim>\<open>^\<close>.\<close>

definition RegExp :: "string \<Rightarrow> error + regex_term list" where
  "RegExp source =
     (case source of
        [] \<Rightarrow> Inl RegExpUnsupported
      | c # cs \<Rightarrow> if c = CHR ''^'' then parse_terms cs else Inl RegExpUnsupported)"

text \<open>
  Without the \<^verbatim>\<open>s\<close> flag the dot matches every character except the line terminators;
  of those, line feed and carriage return are 8-bit characters.
\<close>

definition line_terminator :: "char \<Rightarrow> bool" where
  "line_terminator c = (c = CHR 0x0A \<or> c = CHR 0x0D)"

fun atom_accepts :: "atom \<Rightarrow> char \<Rightarrow> bool" where
  "atom_accepts (Lit d) c = (c = d)"
| "atom_accepts AnyChar c = (\<not> line_terminator c)"

text \<open>
  \<^verbatim>\<open>regex.test(value)\<close> for a pattern anchored at both ends: the terms must consume the
  whole value.
\<close>

fun regex_test :: "regex_term list \<Rightarrow> string \<Rightarrow> bool" where
  "regex_test [] v = (v = [])"
| "regex_test (Term a One # ts) [] = False"
| "regex_test (Term a One # ts) (c # cs) = (atom_accepts a c \<and> regex_test ts cs)"
| "regex_test (Term a Opt # ts) [] = regex_test ts []"
| "regex_test (Term a Opt # ts) (c # cs) =
     (regex_test ts (c # cs) \<or> (atom_accepts a c \<and> regex_test ts cs))"
| "regex_test (Term a Star # ts) [] = regex_test ts []"
| "regex_test (Term a Star # ts) (c # cs) =
     (regex_test ts (c # cs) \<or> (atom_accepts a c \<and> regex_test (Term a Star # ts) cs))"

text \<open>The second half of \<^verbatim>\<open>matchGlob\<close>: "Convert glob to regex" and test.\<close>

definition glob_regex_test :: "string \<Rightarrow> string \<Rightarrow> error + bool" where
  "glob_regex_test pattern v =
     (case RegExp (CHR ''^'' # star_to_dotstar (escape_regex pattern) @ [CHR ''$'']) of
        Inl e \<Rightarrow> Inl e
      | Inr regex \<Rightarrow> Inr (regex_test regex v))"

text \<open>
  \<^verbatim>\<open>matchGlob(pattern, value)\<close>. \<^verbatim>\<open>pattern.split(":", 2)\<close> splits at every colon and keeps
  the first two pieces; the destructuring names them \<^verbatim>\<open>prefix\<close> and \<^verbatim>\<open>suffix\<close>.
\<close>

definition matchGlob :: "string \<Rightarrow> string \<Rightarrow> error + bool" where
  "matchGlob pattern v =
     (if CHR '':'' \<in> set pattern then
        (case take 2 (split_on (CHR '':'') pattern) of
           [prefix, suffix] \<Rightarrow>
             if suffix = ''*'' then Inr (startsWith v prefix) else glob_regex_test pattern v
         | _ \<Rightarrow> glob_regex_test pattern v)
      else glob_regex_test pattern v)"

subsection \<open>JavaScript values\<close>

text \<open>
  The values a tool input or an update payload carries, as far as the engine looks at them.
  A number is an integer \<open>n\<close> with \<open>- 2\<^sup>5\<^sup>3 \<le> n < 2\<^sup>5\<^sup>3\<close>, read off its 54-bit word by
  \<^const>\<open>sint\<close>: the range in which a JavaScript number holds every integer exactly and
  \<^verbatim>\<open>String\<close> prints it in plain decimal. A nested plain object is opaque.
\<close>

datatype jsvalue =
    JUndefined | JNull | JBoolean bool | JNumber "54 word" | JString string | JPlainObject

text \<open>An object is the list of its entries, in the order of \<^verbatim>\<open>Object.entries\<close>.\<close>

type_synonym jsobject = "(string \<times> jsvalue) list"

text \<open>Property access \<^verbatim>\<open>obj.key\<close>: a missing property reads as \<^verbatim>\<open>undefined\<close>.\<close>

definition get_prop :: "jsobject \<Rightarrow> string \<Rightarrow> jsvalue" where
  "get_prop obj k = (case map_of obj k of None \<Rightarrow> JUndefined | Some v \<Rightarrow> v)"

text \<open>Truthiness, as the conditions \<^verbatim>\<open>toolInput.command\<close> and \<^verbatim>\<open>toolInput.file_path\<close> test it.\<close>

fun truthy :: "jsvalue \<Rightarrow> bool" where
  "truthy JUndefined = False"
| "truthy JNull = False"
| "truthy (JBoolean b) = b"
| "truthy (JNumber n) = (n \<noteq> 0)"
| "truthy (JString s) = (s \<noteq> [])"
| "truthy JPlainObject = True"

fun decimal :: "nat \<Rightarrow> string" where
  "decimal n = (if n < 10 then [''0123456789'' ! n] else decimal (n div 10) @ [''0123456789'' ! (n mod 10)])"

text \<open>The conversion \<^verbatim>\<open>String(v)\<close>.\<close>

fun js_String :: "jsvalue \<Rightarrow> string" where
  "js_String JUndefined = ''undefined''"
| "js_String JNull = ''null''"
| "js_String (JBoolean b) = (if b then ''true'' else ''false'')"
| "js_String (JNumber n) =
     (if sint n < 0 then CHR ''-'' # decimal (nat (- sint n)) else decimal (nat (sint n)))"
| "js_String (JString s) = s"
| "js_String JPlainObject = ''[object Object]''"

subsection \<open>The store (\<^verbatim>\<open>schema.sql\<close>, \<^verbatim>\<open>database.ts\<close>)\<close>

text \<open>
  The rows of \<^verbatim>\<open>permission_rules\<close> (the interface \<^verbatim>\<open>PermissionRule\<close>). The column \<^verbatim>\<open>behavior\<close>
  is free text in the schema.
\<close>

record permission_rule =
  r_id :: string
  r_project_id :: "string option"
  r_tool_name :: string
  r_rule_content :: string
  r_behavior :: string
  r_priority :: int
  r_created_at :: string

text \<open>The rows of \<^verbatim>\<open>permission_log\<close> (the interface \<^verbatim>\<open>PermissionLogEntry\<close>).\<close>

record log_entry =
  l_id :: string
  l_session_id :: string
  l_request_id :: string
  l_tool_name :: string
  l_tool_input :: string
  l_decision :: string
  l_decision_source :: string
  l_rule_id :: "string option"
  l_decided_by :: string
  l_decided_at :: string

datatype session_status = Starting | Idle | Active | Compacting | Error | Closed

text \<open>The rows of \<^verbatim>\<open>sessions\<close> (the interface \<^verbatim>\<open>Session\<close>).\<close>

record session =
  s_id :: string
  s_project_id :: string
  s_session_id :: string
  s_name :: string
  s_status :: session_status
  s_model :: string
  s_cli_pid :: "nat option"
  s_ws_port :: "int option"
  s_total_cost_usd :: real
  s_total_input_tokens :: int
  s_total_output_tokens :: int
  s_num_turns :: int
  s_error_message :: string
  s_created_at :: string
  s_last_active_at :: string
  s_closed_at :: "string option"

text \<open>The rows of \<^verbatim>\<open>messages\<close> (the interface \<^verbatim>\<open>Message\<close>).\<close>

record message =
  m_id :: string
  m_session_id :: string
  m_direction :: string
  m_message_type :: string
  m_message_subtype :: string
  m_content :: string
  m_timestamp :: string

text \<open>
  The tables the core reads and writes, each in insertion order. Of \<^verbatim>\<open>projects\<close> only the
  primary keys matter here: they are what the foreign keys of the other tables refer to.
\<close>

record database =
  projects :: "string list"
  permission_rules :: "permission_rule list"
  sessions :: "session list"
  messages :: "message list"
  permission_log :: "log_entry list"

text \<open>
  The module variable \<^verbatim>\<open>db\<close> is unset until \<^verbatim>\<open>initDatabase\<close> has run; \<^verbatim>\<open>getDb\<close> throws
  while it is.
\<close>

definition getDb :: "database option \<Rightarrow> error + database" where
  "getDb db = (case db of None \<Rightarrow> Inl DatabaseNotInitialized | Some d \<Rightarrow> Inr d)"

subsection \<open>Permission evaluation (\<^verbatim>\<open>permission-engine.ts\<close>)\<close>

text \<open>
  \<^verbatim>\<open>matchesRule(rule, toolName, toolInput)\<close>. \<^verbatim>\<open>JSON.stringify\<close> belongs to the runtime and is
  a parameter, \<open>stringify\<close>, of everything that calls it.
\<close>

definition matchesRule ::
  "(jsobject \<Rightarrow> string) \<Rightarrow> permission_rule \<Rightarrow> string \<Rightarrow> jsobject \<Rightarrow> error + bool" where
  "matchesRule stringify rule toolName toolInput =
     (if r_tool_name rule \<noteq> ''*'' \<and> r_tool_name rule \<noteq> toolName then Inr False
      else if r_rule_content rule = [] then Inr True
      else
        (let pattern = r_rule_content rule in
         if toolName = ''Bash'' \<and> truthy (get_prop toolInput ''command'') then
           matchGlob pattern (js_String (get_prop toolInput ''command''))
         else if (toolName = ''Write'' \<or> toolName = ''Edit'' \<or> toolName = ''Read'')
                 \<and> truthy (get_prop toolInput ''file_path'') then
           matchGlob pattern (js_String (get_prop toolInput ''file_path''))
         else matchGlob pattern (stringify toolInput)))"

text \<open>
  \<^verbatim>\<open>ORDER BY priority DESC\<close>: rows of equal priority stay in table order (a stable sort).
\<close>

definition by_priority_desc :: "permission_rule list \<Rightarrow> permission_rule list" where
  "by_priority_desc rs = sort_key (\<lambda>r. - r_priority r) rs"

text \<open>
  The two \<^verbatim>\<open>SELECT\<close> statements of \<^verbatim>\<open>findMatchingRule\<close>: \<open>Some p\<close> selects
  \<^verbatim>\<open>project_id = p\<close>, \<open>None\<close> selects \<^verbatim>\<open>project_id IS NULL\<close>.
\<close>

definition select_rules :: "database \<Rightarrow> string option \<Rightarrow> string \<Rightarrow> permission_rule list" where
  "select_rules d pid behavior =
     by_priority_desc
       (filter (\<lambda>r. r_project_id r = pid \<and> r_behavior r = behavior) (permission_rules d))"

text \<open>The loop of \<^verbatim>\<open>findMatchingRule\<close>: the first rule that matches; an exception ends it.\<close>

fun first_matching ::
  "(jsobject \<Rightarrow> string) \<Rightarrow> permission_rule list \<Rightarrow> string \<Rightarrow> jsobject
     \<Rightarrow> error + permission_rule option" where
  "first_matching stringify [] toolName toolInput = Inr None"
| "first_matching stringify (rule # rules) toolName toolInput =
     (case matchesRule stringify rule toolName toolInput of
        Inl e \<Rightarrow> Inl e
      | Inr True \<Rightarrow> Inr (Some rule)
      | Inr False \<Rightarrow> first_matching stringify rules toolName toolInput)"

text \<open>
  \<^verbatim>\<open>findMatchingRule(projectId, toolName, toolInput, behavior)\<close>. The condition
  \<^verbatim>\<open>projectId ? ... : ...\<close> takes the global branch for \<^verbatim>\<open>null\<close> and for the empty string.
\<close>

definition findMatchingRule ::
  "(jsobject \<Rightarrow> string) \<Rightarrow> database option \<Rightarrow> string option \<Rightarrow> string \<Rightarrow> jsobject \<Rightarrow> string
     \<Rightarrow> error + permission_rule option" where
  "findMatchingRule stringify db projectId toolName toolInput behavior =
     (case getDb db of
        Inl e \<Rightarrow> Inl e
      | Inr d \<Rightarrow>
          first_matching stringify
            (if projectId \<noteq> None \<and> projectId \<noteq> Some []
             then select_rules d projectId behavior
             else select_rules d None behavior)
            toolName toolInput)"

text \<open>
  The \<^verbatim>\<open>INSERT INTO permission_log\<close> of \<^verbatim>\<open>logDecision\<close>, under the constraints of the
  schema: \<^verbatim>\<open>id\<close> is the primary key, \<^verbatim>\<open>session_id\<close> references \<^verbatim>\<open>sessions(id)\<close>, \<^verbatim>\<open>rule_id\<close>
  references \<^verbatim>\<open>permission_rules(id)\<close> when it is not null (foreign keys are switched on
  by \<^verbatim>\<open>initDatabase\<close>).
\<close>

definition insert_permission_log :: "database \<Rightarrow> log_entry \<Rightarrow> error + database" where
  "insert_permission_log d entry =
     (if l_id entry \<in> set (map l_id (permission_log d)) then Inl SqliteConstraint
      else if l_session_id entry \<notin> set (map s_id (sessions d)) then Inl SqliteConstraint
      else if (case l_rule_id entry of
                 None \<Rightarrow> False
               | Some rid \<Rightarrow> rid \<notin> set (map r_id (permission_rules d))) then Inl SqliteConstraint
      else Inr (d\<lparr>permission_log := permission_log d @ [entry]\<rparr>))"

text \<open>
  \<^verbatim>\<open>logDecision\<close>. The fresh identifier of \<^verbatim>\<open>generateId()\<close> and the time stamp of
  \<^verbatim>\<open>new Date().toISOString()\<close> are the parameters \<open>new_id\<close> and \<open>now\<close>. The result is the
  exception, if any, and the store afterwards.
\<close>

definition logDecision ::
  "(jsobject \<Rightarrow> string) \<Rightarrow> string \<Rightarrow> string \<Rightarrow> database option \<Rightarrow> string \<Rightarrow> string \<Rightarrow> string
     \<Rightarrow> jsobject \<Rightarrow> string \<Rightarrow> string \<Rightarrow> string option \<Rightarrow> error option \<times> database option" where
  "logDecision stringify new_id now db sessionId requestId toolName toolInput decision source ruleId =
     (case getDb db of
        Inl e \<Rightarrow> (Some e, db)
      | Inr d \<Rightarrow>
          (case insert_permission_log d
                  \<lparr>l_id = new_id, l_session_id = sessionId, l_request_id = requestId,
                   l_tool_name = toolName, l_tool_input = stringify toolInput,
                   l_decision = decision, l_decision_source = source, l_rule_id = ruleId,
                   l_decided_by =
                     (if source = ''auto_rule'' \<or> source = ''auto_default'' then ''system''
                      else source),
                   l_decided_at = now\<rparr> of
             Inl e \<Rightarrow> (Some e, db)
           | Inr d' \<Rightarrow> (None, Some d')))"

text \<open>The interface \<^verbatim>\<open>PermissionDecision\<close>; no rule produces an \<^verbatim>\<open>updated_input\<close>.\<close>

record permission_decision =
  d_behavior :: string

text \<open>
  The tail shared by the five exits of \<^verbatim>\<open>evaluate\<close>: log the decision, then return its
  behavior.
\<close>

definition log_and_return ::
  "(jsobject \<Rightarrow> string) \<Rightarrow> string \<Rightarrow> string \<Rightarrow> database option \<Rightarrow> string \<Rightarrow> string \<Rightarrow> string
     \<Rightarrow> jsobject \<Rightarrow> string \<Rightarrow> string \<Rightarrow> string option
     \<Rightarrow> (error + permission_decision) \<times> database option" where
  "log_and_return stringify new_id now db sessionId requestId toolName toolInput decision source ruleId =
     (case logDecision stringify new_id now db sessionId requestId toolName toolInput
             decision source ruleId of
        (Some e, db') \<Rightarrow> (Inl e, db')
      | (None, db') \<Rightarrow> (Inr \<lparr>d_behavior = decision\<rparr>, db'))"

text \<open>
  \<^verbatim>\<open>evaluate(sessionId, projectId, requestId, toolName, toolInput)\<close>: the result is the
  decision or the exception that escapes, and the store afterwards. There is no
  \<^verbatim>\<open>try\<close> in \<^verbatim>\<open>evaluate\<close>, \<^verbatim>\<open>findMatchingRule\<close>, \<^verbatim>\<open>matchesRule\<close> or \<^verbatim>\<open>logDecision\<close>.
\<close>

definition evaluate ::
  "(jsobject \<Rightarrow> string) \<Rightarrow> string \<Rightarrow> string \<Rightarrow> database option \<Rightarrow> string \<Rightarrow> string \<Rightarrow> string
     \<Rightarrow> string \<Rightarrow> jsobject \<Rightarrow> (error + permission_decision) \<times> database option" where
  "evaluate stringify new_id now db sessionId projectId requestId toolName toolInput =
     (case findMatchingRule stringify db (Some projectId) toolName toolInput ''deny'' of
        Inl e \<Rightarrow> (Inl e, db)
      | Inr (Some projectDeny) \<Rightarrow>
          log_and_return stringify new_id now db sessionId requestId toolName toolInput
            ''deny'' ''auto_rule'' (Some (r_id projectDeny))
      | Inr None \<Rightarrow>
     (case findMatchingRule stringify db None toolName toolInput ''deny'' of
        Inl e \<Rightarrow> (Inl e, db)
      | Inr (Some globalDeny) \<Rightarrow>
          log_and_return stringify new_id now db sessionId requestId toolName toolInput
            ''deny'' ''auto_rule'' (Some (r_id globalDeny))
      | Inr None \<Rightarrow>
     (case findMatchingRule stringify db (Some projectId) toolName toolInput ''allow'' of
        Inl e \<Rightarrow> (Inl e, db)
      | Inr (Some projectAllow) \<Rightarrow>
          log_and_return stringify new_id now db sessionId requestId toolName toolInput
            ''allow'' ''auto_rule'' (Some (r_id projectAllow))
      | Inr None \<Rightarrow>
     (case findMatchingRule stringify db None toolName toolInput ''allow'' of
        Inl e \<Rightarrow> (Inl e, db)
      | Inr (Some globalAllow) \<Rightarrow>
          log_and_return stringify new_id now db sessionId requestId toolName toolInput
            ''allow'' ''auto_rule'' (Some (r_id globalAllow))
      | Inr None \<Rightarrow>
          log_and_return stringify new_id now db sessionId requestId toolName toolInput
            ''allow'' ''auto_default'' None))))"










subsection \<open>Rule update (\<^verbatim>\<open>updateRule\<close>)\<close>

definition ALLOWED_COLUMNS :: "string list" where
  "ALLOWED_COLUMNS = [''tool_name'', ''rule_content'', ''behavior'', ''priority'']"

text \<open>
  The loop over \<^verbatim>\<open>Object.entries(updates)\<close>: the entries that become an assignment
  \<^verbatim>\<open>key = $key\<close> of the statement, with the value bound to the parameter.
\<close>

definition update_fields :: "jsobject \<Rightarrow> (string \<times> jsvalue) list" where
  "update_fields updates =
     filter (\<lambda>(key, v). v \<noteq> JUndefined \<and> key \<in> set ALLOWED_COLUMNS) updates"

text \<open>The columns of the table \<^verbatim>\<open>permission_rules\<close> in \<^verbatim>\<open>schema.sql\<close>.\<close>

definition RULE_COLUMNS :: "string list" where
  "RULE_COLUMNS =
     [''id'', ''project_id'', ''tool_name'', ''rule_content'', ''behavior'', ''priority'',
      ''created_at'']"

text \<open>
  What a column of a row holds, and a row read column by column; a name that is no column
  of the table reads as nothing.
\<close>

datatype cell = NullCell | IntegerCell int | TextCell string

definition column :: "string \<Rightarrow> permission_rule \<Rightarrow> cell option" where
  "column key rule =
     (if key = ''id'' then Some (TextCell (r_id rule))
      else if key = ''project_id'' then
        Some (case r_project_id rule of None \<Rightarrow> NullCell | Some p \<Rightarrow> TextCell p)
      else if key = ''tool_name'' then Some (TextCell (r_tool_name rule))
      else if key = ''rule_content'' then Some (TextCell (r_rule_content rule))
      else if key = ''behavior'' then Some (TextCell (r_behavior rule))
      else if key = ''priority'' then Some (IntegerCell (r_priority rule))
      else if key = ''created_at'' then Some (TextCell (r_created_at rule))
      else None)"

text \<open>The row \<open>target\<close> with its column \<open>key\<close> replaced by that column of \<open>source\<close>.\<close>

definition copy_column :: "string \<Rightarrow> permission_rule \<Rightarrow> permission_rule \<Rightarrow> permission_rule" where
  "copy_column key source target =
     (if key = ''id'' then target\<lparr>r_id := r_id source\<rparr>
      else if key = ''project_id'' then target\<lparr>r_project_id := r_project_id source\<rparr>
      else if key = ''tool_name'' then target\<lparr>r_tool_name := r_tool_name source\<rparr>
      else if key = ''rule_content'' then target\<lparr>r_rule_content := r_rule_content source\<rparr>
      else if key = ''behavior'' then target\<lparr>r_behavior := r_behavior source\<rparr>
      else if key = ''priority'' then target\<lparr>r_priority := r_priority source\<rparr>
      else if key = ''created_at'' then target\<lparr>r_created_at := r_created_at source\<rparr>
      else target)"

text \<open>
  The store (SQLite behind \<^verbatim>\<open>better-sqlite3\<close>) is not part of the repository. What it does
  with a bound value is left open, as two parameters of everything that runs the
  \<^verbatim>\<open>UPDATE\<close>:

    \<^item> \<open>bind_failure v\<close> is the exception of binding the JavaScript value \<open>v\<close> to a
      parameter of a statement, if there is one;

    \<^item> \<open>assign key v rule\<close> is the outcome of \<^verbatim>\<open>SET key = $key\<close> with \<open>v\<close> bound, on the row
      \<open>rule\<close>: the exception of a violated constraint, or the row with the value in
      column \<open>key\<close> as the store converts it to the column's affinity.

  Neither knows of \<^verbatim>\<open>ALLOWED_COLUMNS\<close>: the store assigns to whichever column the statement
  names, \<^verbatim>\<open>id\<close>, \<^verbatim>\<open>project_id\<close> and \<^verbatim>\<open>created_at\<close> included.
\<close>

text \<open>Binding the parameters in order; the first exception ends it.\<close>

fun bind_all :: "(jsvalue \<Rightarrow> error option) \<Rightarrow> jsvalue list \<Rightarrow> error option" where
  "bind_all bind_failure [] = None"
| "bind_all bind_failure (v # vs) =
     (case bind_failure v of
        Some e \<Rightarrow> Some e
      | None \<Rightarrow> bind_all bind_failure vs)"

text \<open>
  The assignments \<^verbatim>\<open>k1 = $k1, k2 = $k2, ...\<close> of one \<^verbatim>\<open>SET\<close> clause on the row \<open>old\<close>: every
  assignment is evaluated on the row as it was, and changes its own column of the new
  row \<open>new\<close> and no other.
\<close>

fun assign_all ::
  "(string \<Rightarrow> jsvalue \<Rightarrow> permission_rule \<Rightarrow> error + permission_rule)
     \<Rightarrow> (string \<times> jsvalue) list \<Rightarrow> permission_rule \<Rightarrow> permission_rule
     \<Rightarrow> error + permission_rule" where
  "assign_all assign [] old new = Inr new"
| "assign_all assign ((key, v) # flds) old new =
     (case assign key v old of
        Inl e \<Rightarrow> Inl e
      | Inr assigned \<Rightarrow> assign_all assign flds old (copy_column key assigned new))"

text \<open>The rows of the table after the statement: those \<^verbatim>\<open>WHERE id = $id\<close> selects are updated.\<close>

fun update_rows ::
  "(string \<Rightarrow> jsvalue \<Rightarrow> permission_rule \<Rightarrow> error + permission_rule)
     \<Rightarrow> (string \<times> jsvalue) list \<Rightarrow> string \<Rightarrow> permission_rule list
     \<Rightarrow> error + permission_rule list" where
  "update_rows assign flds ruleId [] = Inr []"
| "update_rows assign flds ruleId (r # rows) =
     (case (if r_id r = ruleId then assign_all assign flds r r else Inr r) of
        Inl e \<Rightarrow> Inl e
      | Inr r' \<Rightarrow>
          (case update_rows assign flds ruleId rows of
             Inl e \<Rightarrow> Inl e
           | Inr rows' \<Rightarrow> Inr (r' # rows')))"

text \<open>
  \<^verbatim>\<open>execute("UPDATE permission_rules SET ... WHERE id = $id", params)\<close>: \<^verbatim>\<open>getDb\<close>, then
  \<^verbatim>\<open>prepare\<close>, which rejects an assignment to a name that is no column of the table, then
  the binding of the parameters, then the statement itself. A statement that throws
  changes nothing.
\<close>

definition execute_update_rule ::
  "(jsvalue \<Rightarrow> error option)
     \<Rightarrow> (string \<Rightarrow> jsvalue \<Rightarrow> permission_rule \<Rightarrow> error + permission_rule)
     \<Rightarrow> database option \<Rightarrow> (string \<times> jsvalue) list \<Rightarrow> string
     \<Rightarrow> error option \<times> database option" where
  "execute_update_rule bind_failure assign db flds ruleId =
     (case getDb db of
        Inl e \<Rightarrow> (Some e, db)
      | Inr d \<Rightarrow>
          if \<not> list_all (\<lambda>(key, v). key \<in> set RULE_COLUMNS) flds then (Some NoSuchColumn, db)
          else
            (case bind_all bind_failure (map snd flds) of
               Some e \<Rightarrow> (Some e, db)
             | None \<Rightarrow>
                 (case update_rows assign flds ruleId (permission_rules d) of
                    Inl e \<Rightarrow> (Some e, db)
                  | Inr rows \<Rightarrow> (None, Some (d\<lparr>permission_rules := rows\<rparr>)))))"

text \<open>\<^verbatim>\<open>SELECT * FROM permission_rules WHERE id = $id\<close> through \<^verbatim>\<open>queryOne\<close>.\<close>

definition select_rule_by_id :: "database option \<Rightarrow> string \<Rightarrow> error + permission_rule option" where
  "select_rule_by_id db ruleId =
     (case getDb db of
        Inl e \<Rightarrow> Inl e
      | Inr d \<Rightarrow> Inr (find (\<lambda>r. r_id r = ruleId) (permission_rules d)))"

text \<open>\<^verbatim>\<open>updateRule(ruleId, updates)\<close>: the row afterwards, or \<^verbatim>\<open>null\<close>, or the exception.\<close>

definition updateRule ::
  "(jsvalue \<Rightarrow> error option)
     \<Rightarrow> (string \<Rightarrow> jsvalue \<Rightarrow> permission_rule \<Rightarrow> error + permission_rule)
     \<Rightarrow> database option \<Rightarrow> string \<Rightarrow> jsobject
     \<Rightarrow> (error + permission_rule option) \<times> database option" where
  "updateRule bind_failure assign db ruleId updates =
     (let flds = update_fields updates in
      case (if flds \<noteq> [] then execute_update_rule bind_failure assign db flds ruleId
            else (None, db)) of
        (Some e, db') \<Rightarrow> (Inl e, db')
      | (None, db') \<Rightarrow> (select_rule_by_id db' ruleId, db'))"

text \<open>
  What column \<open>key\<close> holds once the store has assigned the bound value \<open>v\<close> to it on the
  row \<open>rule\<close>.
\<close>

definition stored ::
  "(string \<Rightarrow> jsvalue \<Rightarrow> permission_rule \<Rightarrow> error + permission_rule)
     \<Rightarrow> string \<Rightarrow> jsvalue \<Rightarrow> permission_rule \<Rightarrow> cell option" where
  "stored assign key v rule =
     (case assign key v rule of
        Inl e \<Rightarrow> None
      | Inr assigned \<Rightarrow> column key assigned)"

subsection \<open>The session manager (\<^verbatim>\<open>session-manager.ts\<close>)\<close>

text \<open>The three settings of \<^verbatim>\<open>config\<close> that the session manager reads.\<close>

record config =
  wsPortRangeStart :: int
  wsPortRangeEnd :: int
  maxSessionsGlobal :: nat

text \<open>
  An entry of \<^verbatim>\<open>activeSessions\<close>: the bridge (its port), the launched process (its PID and
  what \<^verbatim>\<open>getStderr()\<close> returns when the manager asks), the project and the CLI's own
  session identifier once known.
\<close>

record active_session =
  a_bridge_port :: int
  a_cli_pid :: nat
  a_cli_stderr :: string
  a_projectId :: string
  a_cliSessionId :: "string option"

text \<open>The events the session manager puts on the bus; the time stamp is left out.\<close>

datatype event_data =
    StatusData session_status
  | ErrorData string string   \<comment> \<open>\<^verbatim>\<open>{ reason, error_message }\<close>\<close>
  | NoData

record bus_event =
  e_type :: string
  e_session_id :: string
  e_data :: event_data

text \<open>
  The mutable state of the module and of its collaborators: the store, the map
  \<^verbatim>\<open>activeSessions\<close> (entries in insertion order), the set \<^verbatim>\<open>usedPorts\<close>, the ports on which
  a bridge server listens, the PIDs \<^verbatim>\<open>kill()\<close> was called on, and the events emitted so far.
\<close>

record manager_state =
  store :: "database option"
  activeSessions :: "(string \<times> active_session) list"
  usedPorts :: "int set"
  listening :: "int set"
  killed :: "nat list"
  emitted :: "bus_event list"

text \<open>The loop of \<^verbatim>\<open>allocatePort\<close>, from \<open>port\<close> up to the last port of the range.\<close>

function allocate_from :: "int \<Rightarrow> int \<Rightarrow> int set \<Rightarrow> int option" where
  "allocate_from port last_port used =
     (if port \<le> last_port then
        (if port \<notin> used then Some port else allocate_from (port + 1) last_port used)
      else None)"
  by pat_completeness auto
termination
  by (relation "measure (\<lambda>(port, last_port, used). nat (last_port + 1 - port))") auto

definition allocatePort :: "config \<Rightarrow> manager_state \<Rightarrow> (error + int) \<times> manager_state" where
  "allocatePort cfg st =
     (case allocate_from (wsPortRangeStart cfg) (wsPortRangeEnd cfg) (usedPorts st) of
        None \<Rightarrow> (Inl ConflictError, st)
      | Some port \<Rightarrow> (Inr port, st\<lparr>usedPorts := insert port (usedPorts st)\<rparr>))"

definition releasePort :: "int \<Rightarrow> manager_state \<Rightarrow> manager_state" where
  "releasePort port st = st\<lparr>usedPorts := usedPorts st - {port}\<rparr>"

text \<open>\<^verbatim>\<open>bridge.close()\<close>: the server on that port stops listening.\<close>

definition bridge_close :: "int \<Rightarrow> manager_state \<Rightarrow> manager_state" where
  "bridge_close port st = st\<lparr>listening := listening st - {port}\<rparr>"

text \<open>\<^verbatim>\<open>activeSessions.delete(id)\<close> and \<^verbatim>\<open>activeSessions.set(id, entry)\<close>.\<close>

definition active_delete :: "string \<Rightarrow> manager_state \<Rightarrow> manager_state" where
  "active_delete sid st =
     st\<lparr>activeSessions := filter (\<lambda>(k, a). k \<noteq> sid) (activeSessions st)\<rparr>"

definition active_set :: "string \<Rightarrow> active_session \<Rightarrow> manager_state \<Rightarrow> manager_state" where
  "active_set sid entry st =
     st\<lparr>activeSessions :=
          (if sid \<in> set (map fst (activeSessions st))
           then map (\<lambda>(k, a). if k = sid then (k, entry) else (k, a)) (activeSessions st)
           else activeSessions st @ [(sid, entry)])\<rparr>"

text \<open>\<^verbatim>\<open>eventBus.emit(event)\<close>: what a subscriber throws is caught, the call does not throw.\<close>

definition emit :: "bus_event \<Rightarrow> manager_state \<Rightarrow> manager_state" where
  "emit ev st = st\<lparr>emitted := emitted st @ [ev]\<rparr>"

text \<open>
  \<^verbatim>\<open>execute(sql, params)\<close> on the store of the state: \<^verbatim>\<open>getDb\<close> may throw, and so may the
  statement; a statement that throws changes nothing.
\<close>

definition execute ::
  "(database \<Rightarrow> error + database) \<Rightarrow> manager_state \<Rightarrow> error option \<times> manager_state" where
  "execute statement st =
     (case getDb (store st) of
        Inl e \<Rightarrow> (Some e, st)
      | Inr d \<Rightarrow>
          (case statement d of
             Inl e \<Rightarrow> (Some e, st)
           | Inr d' \<Rightarrow> (None, st\<lparr>store := Some d'\<rparr>)))"

text \<open>\<^verbatim>\<open>UPDATE sessions SET ... WHERE id = $id\<close>, the assignments given as a function on rows.\<close>

definition update_session :: "string \<Rightarrow> (session \<Rightarrow> session) \<Rightarrow> database \<Rightarrow> error + database" where
  "update_session sid assignments d =
     Inr (d\<lparr>sessions := map (\<lambda>s. if s_id s = sid then assignments s else s) (sessions d)\<rparr>)"

text \<open>
  \<^verbatim>\<open>INSERT INTO sessions\<close>: \<^verbatim>\<open>id\<close> is the primary key and \<^verbatim>\<open>project_id\<close> references
  \<^verbatim>\<open>projects(id)\<close>.
\<close>

definition insert_session :: "session \<Rightarrow> database \<Rightarrow> error + database" where
  "insert_session row d =
     (if s_id row \<in> set (map s_id (sessions d)) then Inl SqliteConstraint
      else if s_project_id row \<notin> set (projects d) then Inl SqliteConstraint
      else Inr (d\<lparr>sessions := sessions d @ [row]\<rparr>))"

text \<open>
  \<^verbatim>\<open>INSERT INTO messages\<close>: \<^verbatim>\<open>id\<close> is the primary key and \<^verbatim>\<open>session_id\<close> references
  \<^verbatim>\<open>sessions(id)\<close>.
\<close>

definition insert_message :: "message \<Rightarrow> database \<Rightarrow> error + database" where
  "insert_message row d =
     (if m_id row \<in> set (map m_id (messages d)) then Inl SqliteConstraint
      else if m_session_id row \<notin> set (map s_id (sessions d)) then Inl SqliteConstraint
      else Inr (d\<lparr>messages := messages d @ [row]\<rparr>))"

text \<open>\<^verbatim>\<open>getById(id)\<close>.\<close>

definition getById :: "manager_state \<Rightarrow> string \<Rightarrow> error + session option" where
  "getById st sid =
     (case getDb (store st) of
        Inl e \<Rightarrow> Inl e
      | Inr d \<Rightarrow> Inr (find (\<lambda>s. s_id s = sid) (sessions d)))"

text \<open>\<^verbatim>\<open>updateStatus(sessionId, status)\<close>: the \<^verbatim>\<open>UPDATE\<close>, then a \<^verbatim>\<open>session.status\<close> event.\<close>

definition updateStatus ::
  "string \<Rightarrow> session_status \<Rightarrow> manager_state \<Rightarrow> error option \<times> manager_state" where
  "updateStatus sid status st =
     (case execute (update_session sid (\<lambda>s. s\<lparr>s_status := status\<rparr>)) st of
        (Some e, st') \<Rightarrow> (Some e, st')
      | (None, st') \<Rightarrow>
          (None, emit \<lparr>e_type = ''session.status'', e_session_id = sid,
                       e_data = StatusData status\<rparr> st'))"

text \<open>
  \<^verbatim>\<open>storeMessage(sessionId, direction, messageType, subtype, content)\<close>; \<open>new_id\<close> and \<open>now\<close>
  stand for \<^verbatim>\<open>generateId()\<close> and \<^verbatim>\<open>new Date().toISOString()\<close>.
\<close>

definition storeMessage ::
  "string \<Rightarrow> string \<Rightarrow> string \<Rightarrow> string \<Rightarrow> string \<Rightarrow> string \<Rightarrow> string \<Rightarrow> manager_state
     \<Rightarrow> error option \<times> manager_state" where
  "storeMessage new_id now sid direction messageType subtype content st =
     execute (insert_message
                \<lparr>m_id = new_id, m_session_id = sid, m_direction = direction,
                 m_message_type = messageType, m_message_subtype = subtype,
                 m_content = content, m_timestamp = now\<rparr>) st"

subsubsection \<open>The \<^verbatim>\<open>result\<close> handler\<close>

text \<open>The fields of \<^verbatim>\<open>CliResultMessage\<close> that the handler reads; each may be missing.\<close>

record result_usage =
  input_tokens :: "int option"
  output_tokens :: "int option"

record cli_result =
  total_cost_usd :: "real option"
  usage :: "result_usage option"

text \<open>
  The values bound to \<^verbatim>\<open>$input_tokens\<close>, \<^verbatim>\<open>$output_tokens\<close> and \<^verbatim>\<open>$cost\<close>:
  \<^verbatim>\<open>result.usage?.input_tokens ?? 0\<close> and so on.
\<close>

definition inputTokens :: "cli_result \<Rightarrow> int" where
  "inputTokens result =
     (case usage result of
        None \<Rightarrow> 0
      | Some u \<Rightarrow> (case input_tokens u of None \<Rightarrow> 0 | Some n \<Rightarrow> n))"

definition outputTokens :: "cli_result \<Rightarrow> int" where
  "outputTokens result =
     (case usage result of
        None \<Rightarrow> 0
      | Some u \<Rightarrow> (case output_tokens u of None \<Rightarrow> 0 | Some n \<Rightarrow> n))"

definition costUsd :: "cli_result \<Rightarrow> real" where
  "costUsd result = (case total_cost_usd result of None \<Rightarrow> 0 | Some c \<Rightarrow> c)"

text \<open>The \<^verbatim>\<open>SET\<close> clause of the \<^verbatim>\<open>UPDATE\<close> in \<^verbatim>\<open>onResult\<close>: one statement, six assignments.\<close>

definition result_assignments :: "cli_result \<Rightarrow> string \<Rightarrow> session \<Rightarrow> session" where
  "result_assignments result now s =
     s\<lparr>s_total_cost_usd := costUsd result,
       s_total_input_tokens := inputTokens result,
       s_total_output_tokens := outputTokens result,
       s_num_turns := s_num_turns s + 1,
       s_last_active_at := now,
       s_status := Idle\<rparr>"

text \<open>
  \<^verbatim>\<open>onResult\<close> for the session \<open>sid\<close>: the \<^verbatim>\<open>UPDATE\<close>, then the transcript entry (with its
  own identifier and time stamp, \<open>content\<close> being \<^verbatim>\<open>JSON.stringify(data)\<close>), then
  \<^verbatim>\<open>updateStatus(id, "idle")\<close>.
\<close>

definition onResult ::
  "string \<Rightarrow> string \<Rightarrow> string \<Rightarrow> string \<Rightarrow> string \<Rightarrow> cli_result \<Rightarrow> manager_state
     \<Rightarrow> error option \<times> manager_state" where
  "onResult sid now message_id stored_at content result st =
     (case execute (update_session sid (result_assignments result now)) st of
        (Some e, st1) \<Rightarrow> (Some e, st1)
      | (None, st1) \<Rightarrow>
          (case storeMessage message_id stored_at sid ''inbound'' ''result'' [] content st1 of
             (Some e, st2) \<Rightarrow> (Some e, st2)
           | (None, st2) \<Rightarrow> updateStatus sid Idle st2))"

subsubsection \<open>\<^verbatim>\<open>handleProcessExit\<close>\<close>

definition exit_during_turn_message :: string where
  "exit_during_turn_message = ''CLI process exited unexpectedly during active turn''"

text \<open>The body of \<^verbatim>\<open>if (session && session.status !== "closed")\<close>.\<close>

definition record_exit ::
  "session \<Rightarrow> string \<Rightarrow> string \<Rightarrow> string \<Rightarrow> manager_state \<Rightarrow> error option \<times> manager_state" where
  "record_exit session stderr sid now st =
     (let neverBecameActive = (s_status session = Starting \<or> s_status session = Idle);
          wasActive = (s_status session = Active);
          finalStatus = (if wasActive \<or> (neverBecameActive \<and> stderr \<noteq> []) then Error else Closed);
          errorMessage =
            (if stderr \<noteq> [] then stderr
             else if wasActive then exit_during_turn_message else [])
      in case execute (update_session sid
                         (\<lambda>s. s\<lparr>s_status := finalStatus, s_error_message := errorMessage,
                                 s_closed_at := Some now\<rparr>)) st of
           (Some e, st') \<Rightarrow> (Some e, st')
         | (None, st') \<Rightarrow>
             if finalStatus = Error then
               (None, emit \<lparr>e_type = ''session.error'', e_session_id = sid,
                            e_data = ErrorData
                              (if neverBecameActive then ''cli_exited_before_connect''
                               else ''unexpected_exit'')
                              errorMessage\<rparr> st')
             else (None, st'))"

text \<open>\<^verbatim>\<open>handleProcessExit(sessionId, port)\<close>.\<close>

definition handleProcessExit ::
  "string \<Rightarrow> int \<Rightarrow> string \<Rightarrow> manager_state \<Rightarrow> error option \<times> manager_state" where
  "handleProcessExit sid port now st =
     (let st1 = releasePort port st;
          active = map_of (activeSessions st1) sid;
          stderr = (case active of None \<Rightarrow> [] | Some a \<Rightarrow> a_cli_stderr a);
          st2 = (case active of
                   None \<Rightarrow> st1
                 | Some a \<Rightarrow> active_delete sid (bridge_close (a_bridge_port a) st1))
      in case getById st2 sid of
           Inl e \<Rightarrow> (Some e, st2)
         | Inr None \<Rightarrow> (None, st2)
         | Inr (Some session) \<Rightarrow>
             if s_status session \<noteq> Closed then record_exit session stderr sid now st2
             else (None, st2))"

subsubsection \<open>\<^verbatim>\<open>create\<close>\<close>

text \<open>The project as \<^verbatim>\<open>create\<close> receives it, and \<^verbatim>\<open>CreateSessionInput\<close>.\<close>

record project =
  folder_path :: string
  default_model :: string
  default_permission_mode :: string
  system_prompt :: string
  append_system_prompt :: string

record create_input =
  in_name :: "string option"
  in_model :: "string option"
  in_permission_mode :: "string option"
  in_resume_session_id :: "string option"

text \<open>How the wait for the CLI's connection ends: the three ways out of the promise.\<close>

datatype connect_outcome = Connected | TimedOut | Exited "54 word option"

text \<open>
  What the surroundings contribute to one call of \<^verbatim>\<open>create\<close>: the identifier from
  \<^verbatim>\<open>generateId()\<close>, the time, whether the bridge server comes to listen, the PID of the
  launched CLI or the message \<^verbatim>\<open>launchCli\<close> throws with, how the wait ends, and the standard
  error captured from the CLI by then.
\<close>

record create_env =
  env_id :: string
  env_now :: string
  env_bridge_listens :: bool
  env_launch :: "string + nat"
  env_connect :: connect_outcome
  env_cli_stderr :: string

definition SESSION_ADJECTIVES :: "string list" where
  "SESSION_ADJECTIVES =
     [''Swift'', ''Bright'', ''Calm'', ''Sharp'', ''Bold'',
      ''Quick'', ''Keen'', ''Warm'', ''Clear'', ''Deep'',
      ''Fast'', ''Steady'', ''Fresh'', ''Vivid'', ''Agile'',
      ''Quiet'', ''Crisp'', ''Smooth'', ''Prime'', ''Core'']"

definition SESSION_NOUNS :: "string list" where
  "SESSION_NOUNS =
     [''Spark'', ''Pulse'', ''Wave'', ''Thread'', ''Stream'',
      ''Nexus'', ''Forge'', ''Relay'', ''Signal'', ''Bridge'',
      ''Orbit'', ''Prism'', ''Scope'', ''Helix'', ''Arc'',
      ''Drift'', ''Flare'', ''Lattice'', ''Cipher'', ''Vector'']"

definition generateSessionName :: "manager_state \<Rightarrow> string \<Rightarrow> error + string" where
  "generateSessionName st projectId =
     (case getDb (store st) of
        Inl e \<Rightarrow> Inl e
      | Inr d \<Rightarrow>
          (let index = length (filter (\<lambda>s. s_project_id s = projectId) (sessions d));
               adj = SESSION_ADJECTIVES ! (index mod length SESSION_ADJECTIVES);
               noun = SESSION_NOUNS
                        ! ((index div length SESSION_ADJECTIVES) mod length SESSION_NOUNS)
           in Inr (adj @ '' '' @ noun)))"

definition VALID_PERMISSION_MODES :: "string list" where
  "VALID_PERMISSION_MODES =
     [''acceptEdits'', ''bypassPermissions'', ''default'', ''delegate'', ''dontAsk'', ''plan'']"

text \<open>The message of the error a failed wait rejects with.\<close>

fun error_text :: "error \<Rightarrow> string" where
  "error_text ConnectTimeout = ''CLI failed to connect to bridge within 15s''"
| "error_text (ExitedBeforeConnect code) =
     ''CLI process exited with code ''
       @ (case code of None \<Rightarrow> ''null'' | Some n \<Rightarrow> js_String (JNumber n))
       @ '' before connecting to bridge''"
| "error_text (LaunchError msg) = msg"
| "error_text e = []"

text \<open>
  The \<^verbatim>\<open>UPDATE\<close> both \<^verbatim>\<open>catch\<close> blocks of \<^verbatim>\<open>create\<close> run:
  \<^verbatim>\<open>SET status = 'error', error_message = $error_message, closed_at = $now\<close>.
\<close>

definition mark_error :: "string \<Rightarrow> string \<Rightarrow> string \<Rightarrow> manager_state \<Rightarrow> error option \<times> manager_state" where
  "mark_error sid errorMessage now st =
     execute (update_session sid
                (\<lambda>s. s\<lparr>s_status := Error, s_error_message := errorMessage,
                        s_closed_at := Some now\<rparr>)) st"

text \<open>
  The \<^verbatim>\<open>catch\<close> around \<^verbatim>\<open>launchCli\<close>: close the bridge, release the port, mark the row, rethrow.
\<close>

definition launch_failed ::
  "string \<Rightarrow> int \<Rightarrow> string \<Rightarrow> error \<Rightarrow> manager_state \<Rightarrow> (error + session option) \<times> manager_state" where
  "launch_failed sid port now err st =
     (case mark_error sid (error_text err) now (releasePort port (bridge_close port st)) of
        (Some e, st') \<Rightarrow> (Inl e, st')
      | (None, st') \<Rightarrow> (Inl err, st'))"

text \<open>
  The \<^verbatim>\<open>catch\<close> around the wait: drop the entry, close the bridge, release the port, kill
  the CLI, mark the row, emit \<^verbatim>\<open>session.error\<close> with reason \<^verbatim>\<open>cli_failed_to_connect\<close>, rethrow.
\<close>

definition connect_failed ::
  "string \<Rightarrow> int \<Rightarrow> nat \<Rightarrow> string \<Rightarrow> string \<Rightarrow> error \<Rightarrow> manager_state
     \<Rightarrow> (error + session option) \<times> manager_state" where
  "connect_failed sid port pid stderr now err st =
     (let errorMessage = (if stderr \<noteq> [] then stderr else error_text err);
          st1 = active_delete sid st;
          st2 = bridge_close port st1;
          st3 = releasePort port st2;
          st4 = st3\<lparr>killed := killed st3 @ [pid]\<rparr>
      in case mark_error sid errorMessage now st4 of
           (Some e, st5) \<Rightarrow> (Inl e, st5)
         | (None, st5) \<Rightarrow>
             (Inl err,
              emit \<lparr>e_type = ''session.error'', e_session_id = sid,
                    e_data = ErrorData ''cli_failed_to_connect'' errorMessage\<rparr> st5))"

text \<open>
  The end of \<^verbatim>\<open>create\<close>, from the wait on. When the CLI exits first, the listener that
  \<^verbatim>\<open>cli.onExit\<close> registered runs \<^verbatim>\<open>handleProcessExit\<close> before the listener of the wait
  rejects the promise; what \<^verbatim>\<open>handleProcessExit\<close> throws does not reach \<^verbatim>\<open>create\<close>.
\<close>

definition await_connection ::
  "create_env \<Rightarrow> string \<Rightarrow> int \<Rightarrow> nat \<Rightarrow> manager_state \<Rightarrow> (error + session option) \<times> manager_state" where
  "await_connection env sid port pid st =
     (case env_connect env of
        Connected \<Rightarrow>
          (case updateStatus sid Idle st of
             (Some e, st') \<Rightarrow> (Inl e, st')
           | (None, st') \<Rightarrow>
               (case getById st' sid of
                  Inl e \<Rightarrow> (Inl e, st')
                | Inr row \<Rightarrow> (Inr row, st')))
      | TimedOut \<Rightarrow>
          connect_failed sid port pid (env_cli_stderr env) (env_now env) ConnectTimeout st
      | Exited code \<Rightarrow>
          connect_failed sid port pid (env_cli_stderr env) (env_now env)
            (ExitedBeforeConnect code)
            (snd (handleProcessExit sid port (env_now env) st)))"

text \<open>
  \<^verbatim>\<open>create\<close> after the session row is inserted: the bridge server, the launch, the PID,
  the entry in \<^verbatim>\<open>activeSessions\<close>, the wait. A bridge server that does not come to listen
  rejects \<^verbatim>\<open>createBridgeServer\<close>, and that call is outside every \<^verbatim>\<open>try\<close>.
\<close>

definition start_session ::
  "create_env \<Rightarrow> string \<Rightarrow> int \<Rightarrow> string \<Rightarrow> manager_state \<Rightarrow> (error + session option) \<times> manager_state" where
  "start_session env sid port projectId st =
     (if \<not> env_bridge_listens env then (Inl BridgeError, st)
      else
        (let st1 = st\<lparr>listening := insert port (listening st)\<rparr> in
         case env_launch env of
           Inl msg \<Rightarrow> launch_failed sid port (env_now env) (LaunchError msg) st1
         | Inr pid \<Rightarrow>
             (case execute (update_session sid (\<lambda>s. s\<lparr>s_cli_pid := Some pid\<rparr>)) st1 of
                (Some e, st2) \<Rightarrow> (Inl e, st2)
              | (None, st2) \<Rightarrow>
                  await_connection env sid port pid
                    (active_set sid
                       \<lparr>a_bridge_port = port, a_cli_pid = pid,
                        a_cli_stderr = env_cli_stderr env, a_projectId = projectId,
                        a_cliSessionId = None\<rparr> st2))))"

text \<open>
  \<^verbatim>\<open>create(projectId, project, input)\<close>; the result is what \<^verbatim>\<open>getById\<close> returns for the
  new session, or the exception. The port is allocated before the permission mode
  is checked and before the row is inserted; neither of those two steps is inside a
  \<^verbatim>\<open>try\<close>.
\<close>

definition create ::
  "config \<Rightarrow> create_env \<Rightarrow> string \<Rightarrow> project \<Rightarrow> create_input \<Rightarrow> manager_state
     \<Rightarrow> (error + session option) \<times> manager_state" where
  "create cfg env projectId proj input st =
     (if length (activeSessions st) \<ge> maxSessionsGlobal cfg then (Inl ConflictError, st)
      else
        (case allocatePort cfg st of
           (Inl e, st1) \<Rightarrow> (Inl e, st1)
         | (Inr port, st1) \<Rightarrow>
             (let model = (case in_model input of None \<Rightarrow> default_model proj | Some m \<Rightarrow> m);
                  rawMode = (case in_permission_mode input of
                               None \<Rightarrow> default_permission_mode proj
                             | Some m \<Rightarrow> m)
              in if rawMode \<noteq> [] \<and> rawMode \<notin> set VALID_PERMISSION_MODES
                 then (Inl ValidationError, st1)
                 else
                   (case (case in_name input of
                            None \<Rightarrow> generateSessionName st1 projectId
                          | Some n \<Rightarrow> Inr n) of
                      Inl e \<Rightarrow> (Inl e, st1)
                    | Inr name \<Rightarrow>
                        (case execute (insert_session
                                 \<lparr>s_id = env_id env, s_project_id = projectId,
                                  s_session_id = [], s_name = name, s_status = Starting,
                                  s_model = model, s_cli_pid = None, s_ws_port = Some port,
                                  s_total_cost_usd = 0, s_total_input_tokens = 0,
                                  s_total_output_tokens = 0, s_num_turns = 0,
                                  s_error_message = [], s_created_at = env_now env,
                                  s_last_active_at = env_now env, s_closed_at = None\<rparr>) st1 of
                           (Some e, st2) \<Rightarrow> (Inl e, st2)
                         | (None, st2) \<Rightarrow> start_session env (env_id env) port projectId st2)))))"

text \<open>
  The two sides of the port-pool invariant of the specification: the allocated ports,
  and the ports of the sessions whose status is not terminal.
\<close>

definition terminal :: "session_status \<Rightarrow> bool" where
  "terminal status = (status = Error \<or> status = Closed)"

definition live_session_ports :: "manager_state \<Rightarrow> int list" where
  "live_session_ports st =
     (case store st of
        None \<Rightarrow> []
      | Some d \<Rightarrow>
          concat (map (\<lambda>s. case s_ws_port s of None \<Rightarrow> [] | Some p \<Rightarrow> [p])
                      (filter (\<lambda>s. \<not> terminal (s_status s)) (sessions d))))"

subsection \<open>NDJSON framing (\<^verbatim>\<open>ndjson.ts\<close>)\<close>

definition newline :: char where
  "newline = CHR 0x0A"

text \<open>
  \<^verbatim>\<open>serializeNdjson(obj)\<close>; \<^verbatim>\<open>JSON.stringify\<close> and \<^verbatim>\<open>JSON.parse\<close> belong to the runtime and
  are parameters.
\<close>

definition serializeNdjson :: "('v \<Rightarrow> string) \<Rightarrow> 'v \<Rightarrow> string" where
  "serializeNdjson stringify obj = stringify obj @ [newline]"

text \<open>
  \<^verbatim>\<open>line.trim()\<close>: white space and line terminators are removed at both ends; of those,
  these are 8-bit characters.
\<close>

definition js_whitespace :: "char \<Rightarrow> bool" where
  "js_whitespace c =
     (c \<in> set [CHR 0x09, CHR 0x0A, CHR 0x0B, CHR 0x0C, CHR 0x0D, CHR 0x20, CHR 0xA0])"

definition trim :: "string \<Rightarrow> string" where
  "trim s = rev (dropWhile js_whitespace (rev (dropWhile js_whitespace s)))"

text \<open>
  The loop of \<^verbatim>\<open>feed\<close> over the complete lines. Blank lines are skipped. Inside the \<^verbatim>\<open>try\<close>
  come \<^verbatim>\<open>JSON.parse(trimmed)\<close>, the debug log, which reads \<^verbatim>\<open>(parsed as any).type\<close>, and the
  call of \<^verbatim>\<open>onMessage\<close>. Reading a property of \<^verbatim>\<open>null\<close> throws a \<^verbatim>\<open>TypeError\<close>; \<open>is_null\<close> says
  which parsed values are \<^verbatim>\<open>null\<close>. So a line that \<^verbatim>\<open>JSON.parse\<close> rejects and a line whose value
  is \<^verbatim>\<open>null\<close> both end in the \<^verbatim>\<open>catch\<close>: the line is logged as malformed and the callback is
  not called for it. Every other line goes to the callback. The result is the list of the
  values the callback was called with, in order (what the callback throws is caught by the
  same \<^verbatim>\<open>catch\<close> and does not stop the loop).
\<close>

fun deliver_lines :: "(string \<Rightarrow> 'v option) \<Rightarrow> ('v \<Rightarrow> bool) \<Rightarrow> string list \<Rightarrow> 'v list" where
  "deliver_lines parse is_null [] = []"
| "deliver_lines parse is_null (line # lines) =
     (let trimmed = trim line in
      if trimmed = [] then deliver_lines parse is_null lines
      else (case parse trimmed of
              None \<Rightarrow> deliver_lines parse is_null lines
            | Some parsed \<Rightarrow>
                if is_null parsed then deliver_lines parse is_null lines
                else parsed # deliver_lines parse is_null lines))"

text \<open>
  \<^verbatim>\<open>feed(chunk)\<close> on a parser whose buffer is \<open>buffer\<close>: the new buffer and the values
  delivered. \<^verbatim>\<open>lines.pop() ?? ""\<close> takes the last piece; \<^verbatim>\<open>split\<close> never returns no piece.
\<close>

definition feed ::
  "(string \<Rightarrow> 'v option) \<Rightarrow> ('v \<Rightarrow> bool) \<Rightarrow> string \<Rightarrow> string \<Rightarrow> string \<times> 'v list" where
  "feed parse is_null buffer chunk =
     (let lines = split_on newline (buffer @ chunk) in
      (if lines = [] then [] else last lines, deliver_lines parse is_null (butlast lines)))"

text \<open>A sequence of calls of \<^verbatim>\<open>feed\<close>, one per chunk: the last buffer and all values delivered.\<close>

fun feed_all ::
  "(string \<Rightarrow> 'v option) \<Rightarrow> ('v \<Rightarrow> bool) \<Rightarrow> string \<Rightarrow> string list \<Rightarrow> string \<times> 'v list" where
  "feed_all parse is_null buffer [] = (buffer, [])"
| "feed_all parse is_null buffer (chunk # chunks) =
     (case feed parse is_null buffer chunk of
        (buffer', delivered) \<Rightarrow>
          (case feed_all parse is_null buffer' chunks of
             (buffer'', later) \<Rightarrow> (buffer'', delivered @ later)))"

text \<open>\<^verbatim>\<open>flush()\<close>, whose \<^verbatim>\<open>try\<close> holds the same three steps.\<close>

definition flush ::
  "(string \<Rightarrow> 'v option) \<Rightarrow> ('v \<Rightarrow> bool) \<Rightarrow> string \<Rightarrow> string \<times> 'v list" where
  "flush parse is_null buffer =
     (if trim buffer \<noteq> [] then
        ([], case parse (trim buffer) of
               None \<Rightarrow> []
             | Some parsed \<Rightarrow> if is_null parsed then [] else [parsed])
      else (buffer, []))"

subsection \<open>The audit row and the scenarios of the specification\<close>


text \<open>
  Scenario S1: a global allow rule for \<^verbatim>\<open>Bash\<close> with priority 0, a deny rule of project
  \<^verbatim>\<open>P\<close> for \<^verbatim>\<open>Bash\<close> with content \<^verbatim>\<open>rm -rf *\<close> and priority 10, and a session \<^verbatim>\<open>S\<close> of that
  project.
\<close>

definition scenario_session :: session where
  "scenario_session =
     \<lparr>s_id = ''S'', s_project_id = ''P'', s_session_id = [], s_name = ''Swift Spark'',
      s_status = Idle, s_model = [], s_cli_pid = Some 4242, s_ws_port = Some 9000,
      s_total_cost_usd = 0, s_total_input_tokens = 0, s_total_output_tokens = 0,
      s_num_turns = 0, s_error_message = [], s_created_at = ''t0'', s_last_active_at = ''t0'',
      s_closed_at = None\<rparr>"

definition scenario_S1 :: database where
  "scenario_S1 =
     \<lparr>projects = [''P''],
      permission_rules =
        [\<lparr>r_id = ''g1'', r_project_id = None, r_tool_name = ''Bash'', r_rule_content = [],
          r_behavior = ''allow'', r_priority = 0, r_created_at = ''t0''\<rparr>,
         \<lparr>r_id = ''p1'', r_project_id = Some ''P'', r_tool_name = ''Bash'',
          r_rule_content = ''rm -rf *'', r_behavior = ''deny'', r_priority = 10,
          r_created_at = ''t0''\<rparr>],
      sessions = [scenario_session],
      messages = [],
      permission_log = []\<rparr>"


text \<open>
  A store for the scenario of a rule update. It binds strings, numbers and \<^verbatim>\<open>null\<close> and
  refuses the other values. It holds a string in a text column, a number or the decimal
  text of a natural number in \<^verbatim>\<open>priority\<close> (stored as that integer, by the affinity of the
  column) and \<^verbatim>\<open>null\<close> in \<^verbatim>\<open>project_id\<close>, whichever column the statement names; \<^verbatim>\<open>null\<close> in a
  \<^verbatim>\<open>NOT NULL\<close> column violates the constraint, and so does, in this store, every value that
  the row type of this development cannot hold.
\<close>

definition scenario_bind_failure :: "jsvalue \<Rightarrow> error option" where
  "scenario_bind_failure v =
     (case v of
        JNull \<Rightarrow> None
      | JNumber n \<Rightarrow> None
      | JString s \<Rightarrow> None
      | _ \<Rightarrow> Some BindTypeError)"

definition natural_text :: "string \<Rightarrow> nat option" where
  "natural_text s =
     (if s \<noteq> [] \<and> list_all (\<lambda>c. c \<in> set ''0123456789'') s
      then Some (foldl (\<lambda>n c. 10 * n + (of_char c - 48)) 0 s)
      else None)"

definition scenario_assign ::
  "string \<Rightarrow> jsvalue \<Rightarrow> permission_rule \<Rightarrow> error + permission_rule" where
  "scenario_assign key v rule =
     (case v of
        JString s \<Rightarrow>
          (if key = ''id'' then Inr (rule\<lparr>r_id := s\<rparr>)
           else if key = ''project_id'' then Inr (rule\<lparr>r_project_id := Some s\<rparr>)
           else if key = ''tool_name'' then Inr (rule\<lparr>r_tool_name := s\<rparr>)
           else if key = ''rule_content'' then Inr (rule\<lparr>r_rule_content := s\<rparr>)
           else if key = ''behavior'' then Inr (rule\<lparr>r_behavior := s\<rparr>)
           else if key = ''created_at'' then Inr (rule\<lparr>r_created_at := s\<rparr>)
           else if key = ''priority'' then
             (case natural_text s of
                Some n \<Rightarrow> Inr (rule\<lparr>r_priority := int n\<rparr>)
              | None \<Rightarrow> Inl SqliteConstraint)
           else Inl NoSuchColumn)
      | JNumber n \<Rightarrow>
          (if key = ''priority'' then Inr (rule\<lparr>r_priority := sint n\<rparr>)
           else Inl SqliteConstraint)
      | JNull \<Rightarrow>
          (if key = ''project_id'' then Inr (rule\<lparr>r_project_id := None\<rparr>)
           else Inl SqliteConstraint)
      | _ \<Rightarrow> Inl BindTypeError)"

text \<open>
  The payload of the scenario: two allowed keys, one of them with a text that the store
  converts, and four keys outside the allowlist, of which the store would assign three and
  could not bind the fourth.
\<close>

definition scenario_updates :: jsobject where
  "scenario_updates =
     [(''id'', JString ''other-id''),
      (''tool_name'', JString ''Read''),
      (''project_id'', JNull),
      (''priority'', JString ''7''),
      (''created_at'', JString ''2000-01-01''),
      (''is_admin'', JBoolean True)]"

text \<open>
  Scenario S3 and the scenarios of session creation: a store with project \<^verbatim>\<open>P\<close> and no
  session, a manager that holds nothing yet, a pool of three ports.
\<close>

definition scenario_config :: config where
  "scenario_config = \<lparr>wsPortRangeStart = 9000, wsPortRangeEnd = 9002, maxSessionsGlobal = 20\<rparr>"

definition scenario_store :: database where
  "scenario_store =
     \<lparr>projects = [''P''], permission_rules = [], sessions = [], messages = [],
      permission_log = []\<rparr>"

definition scenario_start :: manager_state where
  "scenario_start =
     \<lparr>store = Some scenario_store,
      activeSessions = [], usedPorts = {}, listening = {}, killed = [], emitted = []\<rparr>"

definition scenario_project :: project where
  "scenario_project =
     \<lparr>folder_path = ''/tmp/p'', default_model = [], default_permission_mode = ''default'',
      system_prompt = [], append_system_prompt = []\<rparr>"

definition scenario_env :: create_env where
  "scenario_env =
     \<lparr>env_id = ''S'', env_now = ''t1'', env_bridge_listens = True, env_launch = Inr 4242,
      env_connect = Connected, env_cli_stderr = []\<rparr>"

definition scenario_input :: create_input where
  "scenario_input =
     \<lparr>in_name = None, in_model = None, in_permission_mode = None,
      in_resume_session_id = None\<rparr>"

text \<open>A manager whose one session, \<^verbatim>\<open>S\<close>, is in the middle of a turn; its CLI wrote no standard error.\<close>

definition scenario_turn_store :: database where
  "scenario_turn_store = scenario_S1\<lparr>sessions := [scenario_session\<lparr>s_status := Active\<rparr>]\<rparr>"

definition scenario_turn :: manager_state where
  "scenario_turn =
     \<lparr>store = Some scenario_turn_store,
      activeSessions =
        [(''S'', \<lparr>a_bridge_port = 9000, a_cli_pid = 4242, a_cli_stderr = [],
                  a_projectId = ''P'', a_cliSessionId = Some ''cli-1''\<rparr>)],
      usedPorts = {9000}, listening = {9000}, killed = [], emitted = []\<rparr>"

text \<open>The two result messages of scenario S3.\<close>

definition scenario_result_1 :: cli_result where
  "scenario_result_1 =
     \<lparr>total_cost_usd = Some 0.05,
      usage = Some \<lparr>input_tokens = Some 100, output_tokens = Some 50\<rparr>\<rparr>"

definition scenario_result_2 :: cli_result where
  "scenario_result_2 =
     \<lparr>total_cost_usd = Some 0.12,
      usage = Some \<lparr>input_tokens = Some 240, output_tokens = Some 130\<rparr>\<rparr>"

text \<open>The same, with a CLI that wrote \<^verbatim>\<open>boom\<close> to its standard error.\<close>

definition scenario_turn_boom :: manager_state where
  "scenario_turn_boom =
     scenario_turn\<lparr>activeSessions :=
        [(''S'', \<lparr>a_bridge_port = 9000, a_cli_pid = 4242, a_cli_stderr = ''boom'',
                  a_projectId = ''P'', a_cliSessionId = Some ''cli-1''\<rparr>)]\<rparr>"

text \<open>A creation whose CLI exits with code 1 before it connects, having written \<^verbatim>\<open>boom\<close>.\<close>

definition scenario_env_exit :: create_env where
  "scenario_env_exit = scenario_env\<lparr>env_connect := Exited (Some 1), env_cli_stderr := ''boom''\<rparr>"

text \<open>A session row that carries totals from earlier turns, and a result that carries none.\<close>

definition scenario_billed_store :: database where
  "scenario_billed_store =
     scenario_S1\<lparr>sessions :=
       [scenario_session\<lparr>s_status := Active, s_total_cost_usd := 0.05,
          s_total_input_tokens := 100, s_total_output_tokens := 50, s_num_turns := 1\<rparr>]\<rparr>"

definition scenario_billed :: manager_state where
  "scenario_billed = scenario_turn\<lparr>store := Some scenario_billed_store\<rparr>"

definition scenario_result_bare :: cli_result where
  "scenario_result_bare = \<lparr>total_cost_usd = None, usage = None\<rparr>"

text \<open>
  Scenario S6: the values \<^verbatim>\<open>{"a":1}\<close> and \<^verbatim>\<open>{"b":2}\<close>, a \<^verbatim>\<open>JSON.stringify\<close> for objects
  whose properties are numbers or strings that need no escape, and a \<^verbatim>\<open>JSON.parse\<close> that
  knows the two texts.
\<close>

definition scenario_a :: jsobject where
  "scenario_a = [(''a'', JNumber 1)]"

definition scenario_b :: jsobject where
  "scenario_b = [(''b'', JNumber 2)]"

definition scenario_value :: "jsvalue \<Rightarrow> string" where
  "scenario_value v =
     (case v of JString s \<Rightarrow> CHR 0x22 # s @ [CHR 0x22] | _ \<Rightarrow> js_String v)"

fun scenario_members :: "jsobject \<Rightarrow> string" where
  "scenario_members [] = []"
| "scenario_members [(k, v)] = CHR 0x22 # k @ [CHR 0x22, CHR '':''] @ scenario_value v"
| "scenario_members ((k, v) # rest) =
     CHR 0x22 # k @ [CHR 0x22, CHR '':''] @ scenario_value v @ [CHR '',''] @ scenario_members rest"

definition scenario_stringify :: "jsobject \<Rightarrow> string" where
  "scenario_stringify obj = CHR ''{'' # scenario_members obj @ [CHR ''}'']"

definition scenario_parse :: "string \<Rightarrow> jsobject option" where
  "scenario_parse line =
     (if line = scenario_stringify scenario_a then Some scenario_a
      else if line = scenario_stringify scenario_b then Some scenario_b
      else None)"

text \<open>
  The JSON values of the scenarios of framing, \<^verbatim>\<open>null\<close> and the objects above, with their
  \<^verbatim>\<open>JSON.stringify\<close> and \<^verbatim>\<open>JSON.parse\<close>.
\<close>

datatype json = JsonNull | JsonObject jsobject

definition json_stringify :: "json \<Rightarrow> string" where
  "json_stringify v = (case v of JsonNull \<Rightarrow> ''null'' | JsonObject obj \<Rightarrow> scenario_stringify obj)"

definition json_parse :: "string \<Rightarrow> json option" where
  "json_parse line =
     (if line = ''null'' then Some JsonNull else map_option JsonObject (scenario_parse line))"

definition json_is_null :: "json \<Rightarrow> bool" where
  "json_is_null v = (v = JsonNull)"

text \<open>
  The text \<^verbatim>\<open>matchGlob\<close> hands to \<^verbatim>\<open>new RegExp\<close>, after the leading \<^verbatim>\<open>^\<close>; used to show that
  the modelled fragment of regular expressions covers every pattern.
\<close>

definition glob_source :: "string \<Rightarrow> string" where
  "glob_source p = star_to_dotstar (escape_regex p) @ [CHR ''$'']"


section \<open>Properties\<close>

subsection \<open>The glob matcher\<close>

text \<open>
  The regular expressions that \<^verbatim>\<open>matchGlob\<close> builds stay inside the modelled fragment:
  whatever the pattern, the matcher answers or throws the syntax error of \<^verbatim>\<open>new RegExp\<close>.
\<close>

lemma glob_source_Nil: "glob_source [] = [CHR ''$'']"
  by (simp add: glob_source_def)

lemma glob_source_Cons:
  "glob_source (c # q) =
     (if c \<in> set escaped_class then backslash # c # glob_source q
      else if c = CHR ''*'' then CHR ''.'' # CHR ''*'' # glob_source q
      else c # glob_source q)"
  by (auto simp: glob_source_def escaped_class_def backslash_def)

lemma glob_source_not_Nil: "glob_source q \<noteq> []"
  by (simp add: glob_source_def)

lemma hd_glob_source:
  "hd (glob_source q) \<noteq> CHR ''*'' \<and>
   (hd (glob_source q) = CHR ''?'' \<longleftrightarrow> (\<exists>q'. q = CHR ''?'' # q'))"
  by (cases q) (auto simp: glob_source_Nil glob_source_Cons escaped_class_def backslash_def)

lemma after_quantifier:
  "\<exists>q'. length q' \<le> length q \<and>
         drop (snd (parse_quantifier (glob_source q))) (glob_source q) = glob_source q'"
proof (cases q)
  case Nil
  then show ?thesis by (auto simp: glob_source_Nil)
next
  case (Cons c q1)
  show ?thesis
  proof (cases "c = CHR ''?''")
    case False
    obtain x xs where x: "glob_source q = x # xs"
      using glob_source_not_Nil [of q] by (cases "glob_source q") auto
    with hd_glob_source [of q] False Cons have "x \<noteq> CHR ''*''" "x \<noteq> CHR ''?''"
      by auto
    then have "snd (parse_quantifier (x # xs)) = 0"
      by (cases xs) auto
    with x show ?thesis by (intro exI [of _ q]) simp
  next
    case True
    obtain y ys where y: "glob_source q1 = y # ys"
      using glob_source_not_Nil [of q1] by (cases "glob_source q1") auto
    have src: "glob_source q = CHR ''?'' # y # ys"
      using True Cons y by (simp add: glob_source_Cons escaped_class_def backslash_def)
    show ?thesis
    proof (cases "y = CHR ''?''")
      case False
      then have "drop (snd (parse_quantifier (glob_source q))) (glob_source q) = glob_source q1"
        by (simp add: src y)
      then show ?thesis using Cons by (intro exI [of _ q1]) simp
    next
      case yq: True
      with hd_glob_source [of q1] y obtain q2 where q2: "q1 = CHR ''?'' # q2" by auto
      then have "glob_source q1 = CHR ''?'' # glob_source q2"
        by (simp add: glob_source_Cons escaped_class_def backslash_def)
      with y yq have "drop (snd (parse_quantifier (glob_source q))) (glob_source q) = glob_source q2"
        by (simp add: src)
      then show ?thesis using Cons q2 by (intro exI [of _ q2]) simp
    qed
  qed
qed

lemma after_star:
  "\<exists>q'. length q' \<le> length q \<and>
         drop (snd (parse_quantifier (CHR ''*'' # glob_source q))) (CHR ''*'' # glob_source q)
           = glob_source q'"
proof -
  obtain x xs where x: "glob_source q = x # xs"
    using glob_source_not_Nil [of q] by (cases "glob_source q") auto
  show ?thesis
  proof (cases "x = CHR ''?''")
    case False
    then show ?thesis using x by (intro exI [of _ q]) simp
  next
    case True
    with hd_glob_source [of q] x obtain q1 where q1: "q = CHR ''?'' # q1" by auto
    then have "glob_source q = CHR ''?'' # glob_source q1"
      by (simp add: glob_source_Cons escaped_class_def backslash_def)
    with x True show ?thesis using q1 by (intro exI [of _ q1]) auto
  qed
qed

lemma parse_terms_supported: "parse_terms (glob_source p) \<noteq> Inl RegExpUnsupported"
proof (induction p rule: length_induct)
  case (1 p)
  then have IH: "length q < length p \<Longrightarrow> parse_terms (glob_source q) \<noteq> Inl RegExpUnsupported" for q
    by blast
  show ?case
  proof (cases p)
    case Nil
    then show ?thesis by (simp add: glob_source_Nil)
  next
    case (Cons c q)
    obtain q1 where q1: "length q1 \<le> length q"
      "drop (snd (parse_quantifier (glob_source q))) (glob_source q) = glob_source q1"
      using after_quantifier [of q] by blast
    obtain q2 where q2: "length q2 \<le> length q"
      "drop (snd (parse_quantifier (CHR ''*'' # glob_source q))) (CHR ''*'' # glob_source q)
         = glob_source q2"
      using after_star [of q] by blast
    have r1: "parse_terms (glob_source q1) \<noteq> Inl RegExpUnsupported"
      using IH [of q1] q1 Cons by simp
    have r2: "parse_terms (glob_source q2) \<noteq> Inl RegExpUnsupported"
      using IH [of q2] q2 Cons by simp
    consider (esc) "c \<in> set escaped_class" | (star) "c = CHR ''*''" | (quest) "c = CHR ''?''"
      | (lit) "c \<notin> set escaped_class" "c \<noteq> CHR ''*''" "c \<noteq> CHR ''?''"
      by blast
    then show ?thesis
    proof cases
      case esc
      then have "glob_source p = backslash # c # glob_source q"
        using Cons by (simp add: glob_source_Cons)
      then show ?thesis
        using esc r1 q1(2)
        by (auto simp: backslash_def split: sum.splits)
    next
      case star
      then have "glob_source p = CHR ''.'' # CHR ''*'' # glob_source q"
        using Cons by (simp add: glob_source_Cons escaped_class_def backslash_def)
      then show ?thesis
        using r2 q2(2)
        by (auto simp: backslash_def escaped_class_def split: sum.splits)
    next
      case quest
      then have "glob_source p = CHR ''?'' # glob_source q"
        using Cons by (simp add: glob_source_Cons escaped_class_def backslash_def)
      then show ?thesis by simp
    next
      case lit
      then have "glob_source p = c # glob_source q"
        using Cons by (simp add: glob_source_Cons)
      moreover from lit have "c \<noteq> CHR ''$''" "c \<noteq> CHR ''+''" "c \<noteq> backslash" "c \<noteq> CHR ''.''"
        by (auto simp: escaped_class_def)
      ultimately show ?thesis
        using lit r1 q1(2)
        by (auto split: sum.splits)
    qed
  qed
qed

lemma matchGlob_supported: "matchGlob pattern v \<noteq> Inl RegExpUnsupported"
  using parse_terms_supported [of pattern]
  by (auto simp: matchGlob_def glob_regex_test_def RegExp_def glob_source_def
        split: list.splits sum.splits)

text \<open>
  Claim C5 (prefix-colon special case): when the pattern contains a colon and the suffix
  after the first colon is exactly \<^verbatim>\<open>*\<close>, the matcher answers whether the value starts
  with the part before that colon; when the suffix after the first colon is anything
  else, the special case does not apply and anchored glob matching is used.
  The code takes the second piece of \<^verbatim>\<open>pattern.split(":", 2)\<close> for the suffix, which ends
  at the second colon: for the pattern \<^verbatim>\<open>git:*:x\<close> the suffix after the first colon is
  \<^verbatim>\<open>*:x\<close>, yet the special case applies and \<^verbatim>\<open>git commit\<close> matches, where anchored glob
  matching of the same pattern rejects it.
\<close>

theorem matchGlob_colon_suffix_cut_at_second_colon:
  "matchGlob ''git:*:x'' ''git commit'' = Inr True \<and>
   glob_regex_test ''git:*:x'' ''git commit'' = Inr False \<and>
   drop (Suc (length (takeWhile (\<lambda>c. c \<noteq> CHR '':'') ''git:*:x''))) ''git:*:x'' = ''*:x''"
  by code_simp

text \<open>
  Claim C6 (patterns are literal but for the star): every metacharacter other than \<^verbatim>\<open>*\<close>
  is escaped, so a pattern without a star matches exactly the value equal to it; the
  pattern \<^verbatim>\<open>file?\<close> matches only \<^verbatim>\<open>file?\<close>.
  The escaped class leaves out the question mark, which stays a quantifier: the pattern
  \<^verbatim>\<open>file?\<close> rejects the value \<^verbatim>\<open>file?\<close> and accepts \<^verbatim>\<open>fil\<close> and \<^verbatim>\<open>file\<close>.
\<close>

theorem matchGlob_question_mark_is_a_quantifier:
  "matchGlob ''file?'' ''file?'' = Inr False \<and>
   matchGlob ''file?'' ''fil'' = Inr True \<and>
   matchGlob ''file?'' ''file'' = Inr True"
  by code_simp

subsection \<open>Evaluation order and the audit row\<close>


















text \<open>
  Scenario S1: the project deny rule beats the global allow rule, and one audit row is
  written.
\<close>

lemma evaluate_scenario_S1:
  "evaluate scenario_stringify ''L1'' ''t1'' (Some scenario_S1) ''S'' ''P'' ''req-1'' ''Bash''
       [(''command'', JString ''rm -rf /tmp/x'')]
     = (Inr \<lparr>d_behavior = ''deny''\<rparr>,
        Some (scenario_S1\<lparr>permission_log :=
          [\<lparr>l_id = ''L1'', l_session_id = ''S'', l_request_id = ''req-1'',
            l_tool_name = ''Bash'',
            l_tool_input = scenario_stringify [(''command'', JString ''rm -rf /tmp/x'')],
            l_decision = ''deny'', l_decision_source = ''auto_rule'', l_rule_id = Some ''p1'',
            l_decided_by = ''system'', l_decided_at = ''t1''\<rparr>]\<rparr>))"
  by code_simp

subsection \<open>Failures during evaluation\<close>






subsection \<open>The \<^verbatim>\<open>result\<close> handler\<close>

lemma find_update_session:
  "find (\<lambda>s. s_id s = sid) rows = Some s \<Longrightarrow> (\<And>s. s_id (f s) = s_id s) \<Longrightarrow>
   find (\<lambda>s. s_id s = sid) (map (\<lambda>s. if s_id s = sid then f s else s) rows) = Some (f s)"
  by (induction rows) (auto split: if_splits)

lemma find_session_mem:
  "find (\<lambda>s. s_id s = sid) rows = Some s \<Longrightarrow> sid \<in> set (map s_id rows)"
  by (induction rows) (auto split: if_splits)

lemma others_update_session:
  "(\<And>s. s_id (f s) = s_id s) \<Longrightarrow>
   filter (\<lambda>s. s_id s \<noteq> sid) (map (\<lambda>s. if s_id s = sid then f s else s) rows)
     = filter (\<lambda>s. s_id s \<noteq> sid) rows"
  by (induction rows) auto

lemma s_id_result_assignments [simp]: "s_id (result_assignments r now s) = s_id s"
  by (simp add: result_assignments_def)

text \<open>After the handler, whether or not the transcript insert throws.\<close>

lemma onResult_row:
  assumes st: "store st = Some d"
    and row: "find (\<lambda>s. s_id s = sid) (sessions d) = Some s"
  shows "\<exists>d'. store (snd (onResult sid now message_id stored_at content r st)) = Some d' \<and>
           find (\<lambda>s. s_id s = sid) (sessions d') = Some (result_assignments r now s) \<and>
           filter (\<lambda>s. s_id s \<noteq> sid) (sessions d') = filter (\<lambda>s. s_id s \<noteq> sid) (sessions d)"
proof -
  let ?d1 = "d\<lparr>sessions := map (\<lambda>s. if s_id s = sid then result_assignments r now s else s)
                               (sessions d)\<rparr>"
  let ?st1 = "st\<lparr>store := Some ?d1\<rparr>"
  have e1: "execute (update_session sid (result_assignments r now)) st = (None, ?st1)"
    using st by (simp add: execute_def getDb_def update_session_def)
  have f1: "find (\<lambda>s. s_id s = sid) (sessions ?d1) = Some (result_assignments r now s)"
    using find_update_session [OF row, of "result_assignments r now"] by simp
  have o1: "filter (\<lambda>s. s_id s \<noteq> sid) (sessions ?d1) = filter (\<lambda>s. s_id s \<noteq> sid) (sessions d)"
    using others_update_session [of "result_assignments r now" sid "sessions d"] by simp
  have idem: "(\<lambda>s. if s_id s = sid then s\<lparr>s_status := Idle\<rparr> else s) (result_assignments r now s)
                = result_assignments r now s"
    by (simp add: result_assignments_def)
  show ?thesis
  proof (cases "storeMessage message_id stored_at sid ''inbound'' ''result'' [] content ?st1")
    case (Pair err st2)
    show ?thesis
    proof (cases err)
      case (Some e)
      with Pair have "st2 = ?st1"
        by (auto simp: storeMessage_def execute_def getDb_def split: sum.splits)
      with Pair Some e1 f1 o1 show ?thesis
        by (simp add: onResult_def)
    next
      case None
      with Pair have st2: "st2 = ?st1\<lparr>store := Some (?d1\<lparr>messages := messages ?d1 @
               [\<lparr>m_id = message_id, m_session_id = sid, m_direction = ''inbound'',
                 m_message_type = ''result'', m_message_subtype = [],
                 m_content = content, m_timestamp = stored_at\<rparr>]\<rparr>)\<rparr>"
        by (auto simp: storeMessage_def execute_def getDb_def insert_message_def
              split: sum.splits if_splits)
      have f3: "find (\<lambda>s. s_id s = sid)
                  (map (\<lambda>s. if s_id s = sid then s\<lparr>s_status := Idle\<rparr> else s) (sessions ?d1))
                = Some (result_assignments r now s)"
        using find_update_session [OF f1, of "\<lambda>s. s\<lparr>s_status := Idle\<rparr>"]
        by (simp add: result_assignments_def)
      have o3: "filter (\<lambda>s. s_id s \<noteq> sid)
                  (map (\<lambda>s. if s_id s = sid then s\<lparr>s_status := Idle\<rparr> else s) (sessions ?d1))
                = filter (\<lambda>s. s_id s \<noteq> sid) (sessions d)"
        using others_update_session [of "\<lambda>s. s\<lparr>s_status := Idle\<rparr>" sid "sessions ?d1"] o1
        by simp
      from Pair None e1 st2 f3 o3 show ?thesis
        by (simp add: onResult_def updateStatus_def execute_def getDb_def update_session_def emit_def)
    qed
  qed
qed

text \<open>
  Claim C2 (totals are set, not added): for a session row \<open>s\<close> and a result message that
  carries the cost and both token counts, the one \<^verbatim>\<open>UPDATE\<close> of the handler sets
  \<^verbatim>\<open>total_cost_usd\<close>, \<^verbatim>\<open>total_input_tokens\<close> and \<^verbatim>\<open>total_output_tokens\<close> to the values of the
  message, adds one to \<^verbatim>\<open>num_turns\<close>, sets \<^verbatim>\<open>last_active_at\<close> and sets the status to \<^verbatim>\<open>idle\<close>;
  that is the row after the handler, and after a second such result the three totals
  are those of the second message, with two turns counted.
\<close>

theorem onResult_sets_totals:
  assumes st: "store st = Some d"
    and row: "find (\<lambda>s. s_id s = sid) (sessions d) = Some s"
    and r1: "total_cost_usd r1 = Some cost1" "usage r1 = Some u1"
            "input_tokens u1 = Some in1" "output_tokens u1 = Some out1"
    and r2: "total_cost_usd r2 = Some cost2" "usage r2 = Some u2"
            "input_tokens u2 = Some in2" "output_tokens u2 = Some out2"
    and after1: "st1 = snd (onResult sid now1 id1 at1 content1 r1 st)"
    and after2: "st2 = snd (onResult sid now2 id2 at2 content2 r2 st1)"
  shows "result_assignments r1 now1 s =
           s\<lparr>s_total_cost_usd := cost1, s_total_input_tokens := in1,
             s_total_output_tokens := out1, s_num_turns := s_num_turns s + 1,
             s_last_active_at := now1, s_status := Idle\<rparr> \<and>
         (\<exists>d1. store st1 = Some d1 \<and>
            find (\<lambda>s. s_id s = sid) (sessions d1) =
              Some (s\<lparr>s_total_cost_usd := cost1, s_total_input_tokens := in1,
                      s_total_output_tokens := out1, s_num_turns := s_num_turns s + 1,
                      s_last_active_at := now1, s_status := Idle\<rparr>)) \<and>
         (\<exists>d2. store st2 = Some d2 \<and>
            find (\<lambda>s. s_id s = sid) (sessions d2) =
              Some (s\<lparr>s_total_cost_usd := cost2, s_total_input_tokens := in2,
                      s_total_output_tokens := out2, s_num_turns := s_num_turns s + 2,
                      s_last_active_at := now2, s_status := Idle\<rparr>))"
proof -
  have a1: "result_assignments r1 now1 s =
           s\<lparr>s_total_cost_usd := cost1, s_total_input_tokens := in1,
             s_total_output_tokens := out1, s_num_turns := s_num_turns s + 1,
             s_last_active_at := now1, s_status := Idle\<rparr>"
    using r1 by (simp add: result_assignments_def costUsd_def inputTokens_def outputTokens_def)
  from onResult_row [OF st row, of now1 id1 at1 content1 r1]
  obtain d1 where d1: "store st1 = Some d1"
    "find (\<lambda>s. s_id s = sid) (sessions d1) = Some (result_assignments r1 now1 s)"
    unfolding after1 by blast
  from onResult_row [OF d1, of now2 id2 at2 content2 r2]
  obtain d2 where d2: "store st2 = Some d2"
    "find (\<lambda>s. s_id s = sid) (sessions d2)
       = Some (result_assignments r2 now2 (result_assignments r1 now1 s))"
    unfolding after2 by blast
  have a2: "result_assignments r2 now2 (result_assignments r1 now1 s) =
           s\<lparr>s_total_cost_usd := cost2, s_total_input_tokens := in2,
             s_total_output_tokens := out2, s_num_turns := s_num_turns s + 2,
             s_last_active_at := now2, s_status := Idle\<rparr>"
    using r2 by (simp add: result_assignments_def costUsd_def inputTokens_def outputTokens_def)
  from a1 d1 d2 a2 show ?thesis by simp
qed

theorem onResult_sets_totals_witness:
  "store scenario_turn = Some scenario_turn_store \<and>
   find (\<lambda>s. s_id s = ''S'') (sessions scenario_turn_store) = Some (scenario_session\<lparr>s_status := Active\<rparr>) \<and>
   total_cost_usd scenario_result_1 = Some 0.05 \<and>
   usage scenario_result_1 = Some \<lparr>input_tokens = Some 100, output_tokens = Some 50\<rparr> \<and>
   total_cost_usd scenario_result_2 = Some 0.12 \<and>
   usage scenario_result_2 = Some \<lparr>input_tokens = Some 240, output_tokens = Some 130\<rparr> \<and>
   (\<exists>d1. store (snd (onResult ''S'' ''t1'' ''m1'' ''t1'' ''{}'' scenario_result_1 scenario_turn)) = Some d1 \<and>
      find (\<lambda>s. s_id s = ''S'') (sessions d1) =
        Some (scenario_session\<lparr>s_total_cost_usd := 0.05, s_total_input_tokens := 100,
                s_total_output_tokens := 50, s_num_turns := 1,
                s_last_active_at := ''t1'', s_status := Idle\<rparr>)) \<and>
   (\<exists>d2. store (snd (onResult ''S'' ''t2'' ''m2'' ''t2'' ''{}'' scenario_result_2
                   (snd (onResult ''S'' ''t1'' ''m1'' ''t1'' ''{}'' scenario_result_1 scenario_turn))))
            = Some d2 \<and>
      find (\<lambda>s. s_id s = ''S'') (sessions d2) =
        Some (scenario_session\<lparr>s_total_cost_usd := 0.12, s_total_input_tokens := 240,
                s_total_output_tokens := 130, s_num_turns := 2,
                s_last_active_at := ''t2'', s_status := Idle\<rparr>))"
proof -
  have st: "store scenario_turn = Some scenario_turn_store"
    by (simp add: scenario_turn_def)
  have row: "find (\<lambda>s. s_id s = ''S'') (sessions scenario_turn_store)
               = Some (scenario_session\<lparr>s_status := Active\<rparr>)"
    by (simp add: scenario_turn_store_def scenario_session_def)
  have r1: "total_cost_usd scenario_result_1 = Some 0.05"
    "usage scenario_result_1 = Some \<lparr>input_tokens = Some 100, output_tokens = Some 50\<rparr>"
    "input_tokens \<lparr>input_tokens = Some 100, output_tokens = Some 50\<rparr> = Some 100"
    "output_tokens \<lparr>input_tokens = Some 100, output_tokens = Some 50\<rparr> = Some 50"
    by (simp_all add: scenario_result_1_def)
  have r2: "total_cost_usd scenario_result_2 = Some 0.12"
    "usage scenario_result_2 = Some \<lparr>input_tokens = Some 240, output_tokens = Some 130\<rparr>"
    "input_tokens \<lparr>input_tokens = Some 240, output_tokens = Some 130\<rparr> = Some 240"
    "output_tokens \<lparr>input_tokens = Some 240, output_tokens = Some 130\<rparr> = Some 130"
    by (simp_all add: scenario_result_2_def)
  from onResult_sets_totals [OF st row r1 r2 refl refl,
         of "''t1''" "''m1''" "''t1''" "''{}''" "''t2''" "''m2''" "''t2''" "''{}''"]
       st row r1 r2
  show ?thesis by (simp add: scenario_session_def)
qed

text \<open>
  Claim C10 (missing fields reset the totals): whatever the row held, after a result
  message the cost is the message's cost or 0 when the message has none, each token
  count is the message's or 0 when \<^verbatim>\<open>usage\<close> or the count is missing; the turn is counted
  and the status is \<^verbatim>\<open>idle\<close> all the same.
\<close>

theorem onResult_missing_fields_reset_totals:
  assumes st: "store st = Some d"
    and row: "find (\<lambda>s. s_id s = sid) (sessions d) = Some s"
  shows "\<exists>d' s'. store (snd (onResult sid now message_id stored_at content r st)) = Some d' \<and>
           find (\<lambda>s. s_id s = sid) (sessions d') = Some s' \<and>
           s_total_cost_usd s' = (case total_cost_usd r of None \<Rightarrow> 0 | Some c \<Rightarrow> c) \<and>
           s_total_input_tokens s' =
             (case usage r of None \<Rightarrow> 0
              | Some u \<Rightarrow> (case input_tokens u of None \<Rightarrow> 0 | Some n \<Rightarrow> n)) \<and>
           s_total_output_tokens s' =
             (case usage r of None \<Rightarrow> 0
              | Some u \<Rightarrow> (case output_tokens u of None \<Rightarrow> 0 | Some n \<Rightarrow> n)) \<and>
           s_num_turns s' = s_num_turns s + 1 \<and> s_status s' = Idle"
  using onResult_row [OF st row, of now message_id stored_at content r]
  by (auto simp: result_assignments_def costUsd_def inputTokens_def outputTokens_def)

theorem onResult_missing_fields_reset_totals_witness:
  "store scenario_billed = Some scenario_billed_store \<and>
   find (\<lambda>s. s_id s = ''S'') (sessions scenario_billed_store) = Some (hd (sessions scenario_billed_store)) \<and>
   s_total_cost_usd (hd (sessions scenario_billed_store)) = 0.05 \<and>
   s_total_input_tokens (hd (sessions scenario_billed_store)) = 100 \<and>
   s_total_output_tokens (hd (sessions scenario_billed_store)) = 50 \<and>
   (\<exists>d' s'. store (snd (onResult ''S'' ''t2'' ''m2'' ''t2'' ''{}'' scenario_result_bare scenario_billed))
               = Some d' \<and>
      find (\<lambda>s. s_id s = ''S'') (sessions d') = Some s' \<and>
      s_total_cost_usd s' = 0 \<and> s_total_input_tokens s' = 0 \<and> s_total_output_tokens s' = 0 \<and>
      s_num_turns s' = 2 \<and> s_status s' = Idle)"
proof -
  have st: "store scenario_billed = Some scenario_billed_store"
    by (simp add: scenario_billed_def)
  have row: "find (\<lambda>s. s_id s = ''S'') (sessions scenario_billed_store)
               = Some (hd (sessions scenario_billed_store))"
    by (simp add: scenario_billed_store_def scenario_session_def)
  have before: "s_total_cost_usd (hd (sessions scenario_billed_store)) = 0.05"
    "s_total_input_tokens (hd (sessions scenario_billed_store)) = 100"
    "s_total_output_tokens (hd (sessions scenario_billed_store)) = 50"
    "s_num_turns (hd (sessions scenario_billed_store)) = 1"
    by (simp_all add: scenario_billed_store_def)
  from onResult_missing_fields_reset_totals
         [OF st row, of "''t2''" "''m2''" "''t2''" "''{}''" scenario_result_bare]
       st row before
  show ?thesis by (simp add: scenario_result_bare_def)
qed

subsection \<open>Process exit\<close>

lemma projections [simp]:
  "store (releasePort port st) = store st"
  "emitted (releasePort port st) = emitted st"
  "activeSessions (releasePort port st) = activeSessions st"
  "store (bridge_close port st) = store st"
  "emitted (bridge_close port st) = emitted st"
  "store (active_delete sid st) = store st"
  "emitted (active_delete sid st) = emitted st"
  "store (active_set sid a st) = store st"
  "emitted (active_set sid a st) = emitted st"
  by (simp_all add: releasePort_def bridge_close_def active_delete_def active_set_def)

text \<open>The state in which \<^verbatim>\<open>handleProcessExit\<close> reads the session row.\<close>

lemma handleProcessExit_unfold:
  assumes "store st = Some d" and "find (\<lambda>s. s_id s = sid) (sessions d) = Some s"
  shows "\<exists>st2. store st2 = Some d \<and> emitted st2 = emitted st \<and>
           handleProcessExit sid port now st =
             (if s_status s \<noteq> Closed then
                record_exit s (case map_of (activeSessions st) sid of
                                 None \<Rightarrow> [] | Some a \<Rightarrow> a_cli_stderr a) sid now st2
              else (None, st2))"
proof (cases "map_of (activeSessions st) sid")
  case None
  show ?thesis
    by (rule exI [of _ "releasePort port st"])
       (simp add: handleProcessExit_def Let_def getById_def getDb_def None assms)
next
  case (Some a)
  show ?thesis
    by (rule exI [of _ "active_delete sid (bridge_close (a_bridge_port a) (releasePort port st))"])
       (simp add: handleProcessExit_def Let_def getById_def getDb_def Some assms)
qed

lemma handleProcessExit_while_active:
  assumes st: "store st = Some d"
    and row: "find (\<lambda>s. s_id s = sid) (sessions d) = Some s"
    and act: "s_status s = Active"
    and err: "stderr = (case map_of (activeSessions st) sid of None \<Rightarrow> [] | Some a \<Rightarrow> a_cli_stderr a)"
    and msg: "msg = (if stderr \<noteq> [] then stderr else exit_during_turn_message)"
  shows "\<exists>st' d'. handleProcessExit sid port now st = (None, st') \<and> store st' = Some d' \<and>
           find (\<lambda>s. s_id s = sid) (sessions d') =
             Some (s\<lparr>s_status := Error, s_error_message := msg, s_closed_at := Some now\<rparr>) \<and>
           emitted st' = emitted st @
             [\<lparr>e_type = ''session.error'', e_session_id = sid,
               e_data = ErrorData ''unexpected_exit'' msg\<rparr>]"
proof -
  from handleProcessExit_unfold [OF st row, of port now] act err
  obtain st2 where st2: "store st2 = Some d" "emitted st2 = emitted st"
    and hpe: "handleProcessExit sid port now st = record_exit s stderr sid now st2"
    by auto
  have "find (\<lambda>s. s_id s = sid)
          (map (\<lambda>s. if s_id s = sid
                    then s\<lparr>s_status := Error, s_error_message := m, s_closed_at := Some now\<rparr>
                    else s) (sessions d))
          = Some (s\<lparr>s_status := Error, s_error_message := m, s_closed_at := Some now\<rparr>)" for m
    using find_update_session
            [OF row, of "\<lambda>s. s\<lparr>s_status := Error, s_error_message := m, s_closed_at := Some now\<rparr>"]
    by simp
  then show ?thesis
    unfolding hpe using st2 act msg
    by (simp add: record_exit_def Let_def execute_def getDb_def update_session_def emit_def)
qed

lemma handleProcessExit_keeps_row:
  assumes st: "store st = Some d"
    and row: "find (\<lambda>s. s_id s = sid) (sessions d) = Some s"
  shows "\<exists>d' s'. store (snd (handleProcessExit sid port now st)) = Some d' \<and>
           find (\<lambda>s. s_id s = sid) (sessions d') = Some s'"
proof -
  from handleProcessExit_unfold [OF st row, of port now]
  obtain st2 where st2: "store st2 = Some d"
    and hpe: "handleProcessExit sid port now st =
             (if s_status s \<noteq> Closed then
                record_exit s (case map_of (activeSessions st) sid of
                                 None \<Rightarrow> [] | Some a \<Rightarrow> a_cli_stderr a) sid now st2
              else (None, st2))"
    by auto
  have upd: "\<exists>s'. find (\<lambda>s. s_id s = sid) (map (\<lambda>s. if s_id s = sid then f s else s) (sessions d))
          = Some s'" if "\<And>s. s_id (f s) = s_id s" for f
    using find_update_session [OF row, of f] that by simp
  have rec: "\<exists>d' s'. store (snd (record_exit s e sid now st2)) = Some d' \<and>
           find (\<lambda>s. s_id s = sid) (sessions d') = Some s'" for e
    using st2 upd
    by (simp add: record_exit_def Let_def execute_def getDb_def update_session_def emit_def)
  show ?thesis
    unfolding hpe using rec st2 row by (cases "s_status s = Closed") simp_all
qed

lemma connect_failed_row:
  assumes st: "store st = Some d"
    and row: "find (\<lambda>s. s_id s = sid) (sessions d) = Some s"
    and msg: "msg = (if stderr \<noteq> [] then stderr else error_text err)"
  shows "\<exists>st' d'. connect_failed sid port pid stderr now err st = (Inl err, st') \<and>
           store st' = Some d' \<and>
           find (\<lambda>s. s_id s = sid) (sessions d') =
             Some (s\<lparr>s_status := Error, s_error_message := msg, s_closed_at := Some now\<rparr>) \<and>
           emitted st' = emitted st @
             [\<lparr>e_type = ''session.error'', e_session_id = sid,
               e_data = ErrorData ''cli_failed_to_connect'' msg\<rparr>]"
proof -
  have "find (\<lambda>s. s_id s = sid)
          (map (\<lambda>s. if s_id s = sid
                    then s\<lparr>s_status := Error, s_error_message := m, s_closed_at := Some now\<rparr>
                    else s) (sessions d))
          = Some (s\<lparr>s_status := Error, s_error_message := m, s_closed_at := Some now\<rparr>)" for m
    using find_update_session
            [OF row, of "\<lambda>s. s\<lparr>s_status := Error, s_error_message := m, s_closed_at := Some now\<rparr>"]
    by simp
  then show ?thesis
    using st msg
    by (simp add: connect_failed_def Let_def mark_error_def execute_def getDb_def
          update_session_def emit_def)
qed

lemma find_append_fresh:
  "sid \<notin> set (map s_id rows) \<Longrightarrow> s_id row = sid \<Longrightarrow>
   find (\<lambda>s. s_id s = sid) (rows @ [row]) = Some row"
  by (induction rows) auto

lemma create_exit_before_connect:
  assumes cap: "length (activeSessions st) < maxSessionsGlobal cfg"
    and port: "allocate_from (wsPortRangeStart cfg) (wsPortRangeEnd cfg) (usedPorts st) = Some port"
    and mode: "(case in_permission_mode input of None \<Rightarrow> default_permission_mode proj | Some m \<Rightarrow> m)
                 \<in> set VALID_PERMISSION_MODES"
    and st: "store st = Some d"
    and fresh: "env_id env \<notin> set (map s_id (sessions d))"
    and proj: "projectId \<in> set (projects d)"
    and bridge: "env_bridge_listens env"
    and launch: "env_launch env = Inr pid"
    and exit: "env_connect env = Exited code"
    and msg: "msg = (if env_cli_stderr env \<noteq> [] then env_cli_stderr env
                     else error_text (ExitedBeforeConnect code))"
  shows "\<exists>st' d' s'. create cfg env projectId proj input st = (Inl (ExitedBeforeConnect code), st') \<and>
           store st' = Some d' \<and>
           find (\<lambda>s. s_id s = env_id env) (sessions d') = Some s' \<and>
           s_status s' = Error \<and> s_error_message s' = msg \<and>
           last (emitted st') =
             \<lparr>e_type = ''session.error'', e_session_id = env_id env,
              e_data = ErrorData ''cli_failed_to_connect'' msg\<rparr>"
proof -
  let ?sid = "env_id env"
  obtain name where name: "(case in_name input of None \<Rightarrow> generateSessionName
            (st\<lparr>usedPorts := insert port (usedPorts st)\<rparr>) projectId | Some n \<Rightarrow> Inr n) = Inr name"
    using st by (cases "in_name input") (auto simp: generateSessionName_def getDb_def Let_def)
  define row where "row =
     \<lparr>s_id = ?sid, s_project_id = projectId, s_session_id = [], s_name = name,
      s_status = Starting,
      s_model = (case in_model input of None \<Rightarrow> default_model proj | Some m \<Rightarrow> m),
      s_cli_pid = None, s_ws_port = Some port, s_total_cost_usd = 0, s_total_input_tokens = 0,
      s_total_output_tokens = 0, s_num_turns = 0, s_error_message = [],
      s_created_at = env_now env, s_last_active_at = env_now env, s_closed_at = None\<rparr>"
  define st3 where "st3 =
     active_set ?sid
       \<lparr>a_bridge_port = port, a_cli_pid = pid, a_cli_stderr = env_cli_stderr env,
        a_projectId = projectId, a_cliSessionId = None\<rparr>
       (st\<lparr>usedPorts := insert port (usedPorts st),
           store := Some (d\<lparr>sessions := sessions d @ [row]\<rparr>),
           listening := insert port (listening st),
           store := Some (d\<lparr>sessions := map (\<lambda>s. if s_id s = ?sid then s\<lparr>s_cli_pid := Some pid\<rparr> else s)
                                            (sessions d @ [row])\<rparr>)\<rparr>)"
  have rowid: "s_id row = ?sid" by (simp add: row_def)
  have f0: "find (\<lambda>s. s_id s = ?sid) (sessions d @ [row]) = Some row"
    using find_append_fresh [OF fresh rowid] .
  have f3: "find (\<lambda>s. s_id s = ?sid)
              (map (\<lambda>s. if s_id s = ?sid then s\<lparr>s_cli_pid := Some pid\<rparr> else s) (sessions d @ [row]))
            = Some (row\<lparr>s_cli_pid := Some pid\<rparr>)"
    using find_update_session [OF f0, of "\<lambda>s. s\<lparr>s_cli_pid := Some pid\<rparr>"] by simp
  have store3: "store st3 =
     Some (d\<lparr>sessions := map (\<lambda>s. if s_id s = ?sid then s\<lparr>s_cli_pid := Some pid\<rparr> else s)
                                            (sessions d @ [row])\<rparr>)"
    by (simp add: st3_def active_set_def)
  have reach: "create cfg env projectId proj input st = await_connection env ?sid port pid st3"
    using cap port mode st fresh proj bridge launch name
    by (simp add: create_def allocatePort_def Let_def execute_def getDb_def insert_session_def
          start_session_def update_session_def st3_def row_def)
  from handleProcessExit_keeps_row [OF store3, of ?sid _ port "env_now env"] f3
  obtain d4 s4 where d4: "store (snd (handleProcessExit ?sid port (env_now env) st3)) = Some d4"
    "find (\<lambda>s. s_id s = ?sid) (sessions d4) = Some s4"
    by auto
  from connect_failed_row [OF d4 msg, of port pid "env_now env"]
  obtain st' d' where fin:
    "connect_failed ?sid port pid (env_cli_stderr env) (env_now env) (ExitedBeforeConnect code)
       (snd (handleProcessExit ?sid port (env_now env) st3)) = (Inl (ExitedBeforeConnect code), st')"
    "store st' = Some d'"
    "find (\<lambda>s. s_id s = ?sid) (sessions d') =
       Some (s4\<lparr>s_status := Error, s_error_message := msg, s_closed_at := Some (env_now env)\<rparr>)"
    "emitted st' = emitted (snd (handleProcessExit ?sid port (env_now env) st3)) @
       [\<lparr>e_type = ''session.error'', e_session_id = ?sid,
         e_data = ErrorData ''cli_failed_to_connect'' msg\<rparr>]"
    by blast
  show ?thesis
    unfolding reach await_connection_def exit
    using fin by simp
qed

text \<open>
  Claim C9 (exit before connect or during a turn), as stated: the session goes to
  \<^verbatim>\<open>error\<close> with the captured standard error stored in \<^verbatim>\<open>error_message\<close>.
  A CLI that exits during a turn without having written to standard error leaves the
  fallback text in \<^verbatim>\<open>error_message\<close>, not the (empty) captured content.
\<close>

theorem handleProcessExit_empty_stderr_counterexample:
  "handleProcessExit ''S'' 9000 ''t9'' scenario_turn
   = (None, scenario_turn\<lparr>store := Some (scenario_S1\<lparr>sessions :=
        [scenario_session\<lparr>s_status := Error,
           s_error_message := ''CLI process exited unexpectedly during active turn'',
           s_closed_at := Some ''t9''\<rparr>]\<rparr>),
        activeSessions := [], usedPorts := {}, listening := {},
        emitted := [\<lparr>e_type = ''session.error'', e_session_id = ''S'',
                     e_data = ErrorData ''unexpected_exit''
                       ''CLI process exited unexpectedly during active turn''\<rparr>]\<rparr>)"
  by code_simp

text \<open>
  Claim C9 as amended: a session whose CLI exits while its status is \<^verbatim>\<open>active\<close> goes to
  \<^verbatim>\<open>error\<close>, \<^verbatim>\<open>error_message\<close> holding the captured standard error when there is some and
  the text "CLI process exited unexpectedly during active turn" otherwise, and a
  \<^verbatim>\<open>session.error\<close> event with reason \<^verbatim>\<open>unexpected_exit\<close> and that message is emitted; a
  session whose CLI exits before it connects makes \<^verbatim>\<open>create\<close> fail with the session in
  \<^verbatim>\<open>error\<close>, \<^verbatim>\<open>error_message\<close> holding the captured standard error when there is some and the
  message of the connect error otherwise, the last event emitted being a \<^verbatim>\<open>session.error\<close>
  with reason \<^verbatim>\<open>cli_failed_to_connect\<close> and that message.
\<close>

theorem exit_marks_session_error:
  "(store st = Some d \<and> find (\<lambda>s. s_id s = sid) (sessions d) = Some s \<and> s_status s = Active \<longrightarrow>
      (\<exists>st' d'. handleProcessExit sid port now st = (None, st') \<and> store st' = Some d' \<and>
         find (\<lambda>s. s_id s = sid) (sessions d') =
           Some (s\<lparr>s_status := Error,
                   s_error_message :=
                     (if (case map_of (activeSessions st) sid of
                            None \<Rightarrow> [] | Some a \<Rightarrow> a_cli_stderr a) \<noteq> []
                      then (case map_of (activeSessions st) sid of
                              None \<Rightarrow> [] | Some a \<Rightarrow> a_cli_stderr a)
                      else exit_during_turn_message),
                   s_closed_at := Some now\<rparr>) \<and>
         emitted st' = emitted st @
           [\<lparr>e_type = ''session.error'', e_session_id = sid,
             e_data = ErrorData ''unexpected_exit''
               (if (case map_of (activeSessions st) sid of
                      None \<Rightarrow> [] | Some a \<Rightarrow> a_cli_stderr a) \<noteq> []
                then (case map_of (activeSessions st) sid of
                        None \<Rightarrow> [] | Some a \<Rightarrow> a_cli_stderr a)
                else exit_during_turn_message)\<rparr>])) \<and>
   (length (activeSessions st) < maxSessionsGlobal cfg \<and>
    allocate_from (wsPortRangeStart cfg) (wsPortRangeEnd cfg) (usedPorts st) = Some port \<and>
    (case in_permission_mode input of None \<Rightarrow> default_permission_mode proj | Some m \<Rightarrow> m)
      \<in> set VALID_PERMISSION_MODES \<and>
    store st = Some d \<and> env_id env \<notin> set (map s_id (sessions d)) \<and>
    projectId \<in> set (projects d) \<and> env_bridge_listens env \<and> env_launch env = Inr pid \<and>
    env_connect env = Exited code \<longrightarrow>
      (\<exists>st' d' s'. create cfg env projectId proj input st = (Inl (ExitedBeforeConnect code), st') \<and>
         store st' = Some d' \<and>
         find (\<lambda>s. s_id s = env_id env) (sessions d') = Some s' \<and>
         s_status s' = Error \<and>
         s_error_message s' =
           (if env_cli_stderr env \<noteq> [] then env_cli_stderr env
            else error_text (ExitedBeforeConnect code)) \<and>
         last (emitted st') =
           \<lparr>e_type = ''session.error'', e_session_id = env_id env,
            e_data = ErrorData ''cli_failed_to_connect''
              (if env_cli_stderr env \<noteq> [] then env_cli_stderr env
               else error_text (ExitedBeforeConnect code))\<rparr>))"
proof (intro conjI impI)
  assume "store st = Some d \<and> find (\<lambda>s. s_id s = sid) (sessions d) = Some s \<and> s_status s = Active"
  then have a: "store st = Some d" "find (\<lambda>s. s_id s = sid) (sessions d) = Some s"
    "s_status s = Active"
    by simp_all
  from handleProcessExit_while_active [OF a refl refl, of port now]
  show "\<exists>st' d'. handleProcessExit sid port now st = (None, st') \<and> store st' = Some d' \<and>
         find (\<lambda>s. s_id s = sid) (sessions d') =
           Some (s\<lparr>s_status := Error,
                   s_error_message :=
                     (if (case map_of (activeSessions st) sid of
                            None \<Rightarrow> [] | Some a \<Rightarrow> a_cli_stderr a) \<noteq> []
                      then (case map_of (activeSessions st) sid of
                              None \<Rightarrow> [] | Some a \<Rightarrow> a_cli_stderr a)
                      else exit_during_turn_message),
                   s_closed_at := Some now\<rparr>) \<and>
         emitted st' = emitted st @
           [\<lparr>e_type = ''session.error'', e_session_id = sid,
             e_data = ErrorData ''unexpected_exit''
               (if (case map_of (activeSessions st) sid of
                      None \<Rightarrow> [] | Some a \<Rightarrow> a_cli_stderr a) \<noteq> []
                then (case map_of (activeSessions st) sid of
                        None \<Rightarrow> [] | Some a \<Rightarrow> a_cli_stderr a)
                else exit_during_turn_message)\<rparr>]" .
next
  assume "length (activeSessions st) < maxSessionsGlobal cfg \<and>
    allocate_from (wsPortRangeStart cfg) (wsPortRangeEnd cfg) (usedPorts st) = Some port \<and>
    (case in_permission_mode input of None \<Rightarrow> default_permission_mode proj | Some m \<Rightarrow> m)
      \<in> set VALID_PERMISSION_MODES \<and>
    store st = Some d \<and> env_id env \<notin> set (map s_id (sessions d)) \<and>
    projectId \<in> set (projects d) \<and> env_bridge_listens env \<and> env_launch env = Inr pid \<and>
    env_connect env = Exited code"
  then have b: "length (activeSessions st) < maxSessionsGlobal cfg"
    "allocate_from (wsPortRangeStart cfg) (wsPortRangeEnd cfg) (usedPorts st) = Some port"
    "(case in_permission_mode input of None \<Rightarrow> default_permission_mode proj | Some m \<Rightarrow> m)
      \<in> set VALID_PERMISSION_MODES"
    "store st = Some d" "env_id env \<notin> set (map s_id (sessions d))"
    "projectId \<in> set (projects d)" "env_bridge_listens env" "env_launch env = Inr pid"
    "env_connect env = Exited code"
    by simp_all
  from create_exit_before_connect [OF b refl]
  show "\<exists>st' d' s'. create cfg env projectId proj input st = (Inl (ExitedBeforeConnect code), st') \<and>
         store st' = Some d' \<and>
         find (\<lambda>s. s_id s = env_id env) (sessions d') = Some s' \<and>
         s_status s' = Error \<and>
         s_error_message s' =
           (if env_cli_stderr env \<noteq> [] then env_cli_stderr env
            else error_text (ExitedBeforeConnect code)) \<and>
         last (emitted st') =
           \<lparr>e_type = ''session.error'', e_session_id = env_id env,
            e_data = ErrorData ''cli_failed_to_connect''
              (if env_cli_stderr env \<noteq> [] then env_cli_stderr env
               else error_text (ExitedBeforeConnect code))\<rparr>" .
qed

theorem exit_marks_session_error_witness:
  "store scenario_turn_boom = Some scenario_turn_store \<and>
   find (\<lambda>s. s_id s = ''S'') (sessions scenario_turn_store) = Some (hd (sessions scenario_turn_store)) \<and>
   s_status (hd (sessions scenario_turn_store)) = Active \<and>
   (\<exists>st' d'. handleProcessExit ''S'' 9000 ''t9'' scenario_turn_boom = (None, st') \<and>
      store st' = Some d' \<and>
      find (\<lambda>s. s_id s = ''S'') (sessions d') =
        Some ((hd (sessions scenario_turn_store))
                \<lparr>s_status := Error, s_error_message := ''boom'', s_closed_at := Some ''t9''\<rparr>) \<and>
      emitted st' =
        [\<lparr>e_type = ''session.error'', e_session_id = ''S'',
          e_data = ErrorData ''unexpected_exit'' ''boom''\<rparr>]) \<and>
   length (activeSessions scenario_start) < maxSessionsGlobal scenario_config \<and>
   allocate_from (wsPortRangeStart scenario_config) (wsPortRangeEnd scenario_config)
     (usedPorts scenario_start) = Some 9000 \<and>
   store scenario_start = Some scenario_store \<and>
   ''S'' \<notin> set (map s_id (sessions scenario_store)) \<and>
   ''P'' \<in> set (projects scenario_store) \<and>
   env_bridge_listens scenario_env_exit \<and>
   env_launch scenario_env_exit = Inr 4242 \<and>
   env_connect scenario_env_exit = Exited (Some 1) \<and>
   (\<exists>st' d' s'. create scenario_config scenario_env_exit ''P'' scenario_project scenario_input
                   scenario_start = (Inl (ExitedBeforeConnect (Some 1)), st') \<and>
      store st' = Some d' \<and> find (\<lambda>s. s_id s = ''S'') (sessions d') = Some s' \<and>
      s_status s' = Error \<and> s_error_message s' = ''boom'' \<and>
      last (emitted st') =
        \<lparr>e_type = ''session.error'', e_session_id = ''S'',
         e_data = ErrorData ''cli_failed_to_connect'' ''boom''\<rparr>)"
proof -
  have a: "store scenario_turn_boom = Some scenario_turn_store"
    "find (\<lambda>s. s_id s = ''S'') (sessions scenario_turn_store) = Some (hd (sessions scenario_turn_store))"
    "s_status (hd (sessions scenario_turn_store)) = Active"
    by (simp_all add: scenario_turn_boom_def scenario_turn_def scenario_turn_store_def
          scenario_session_def)
  have boom: "map_of (activeSessions scenario_turn_boom) ''S''
                = Some \<lparr>a_bridge_port = 9000, a_cli_pid = 4242, a_cli_stderr = ''boom'',
                        a_projectId = ''P'', a_cliSessionId = Some ''cli-1''\<rparr>"
    "emitted scenario_turn_boom = []"
    by (simp_all add: scenario_turn_boom_def scenario_turn_def)
  have b: "length (activeSessions scenario_start) < maxSessionsGlobal scenario_config"
    "allocate_from (wsPortRangeStart scenario_config) (wsPortRangeEnd scenario_config)
       (usedPorts scenario_start) = Some 9000"
    "(case in_permission_mode scenario_input of
        None \<Rightarrow> default_permission_mode scenario_project | Some m \<Rightarrow> m)
      \<in> set VALID_PERMISSION_MODES"
    "store scenario_start = Some scenario_store"
    "''S'' \<notin> set (map s_id (sessions scenario_store))"
    "''P'' \<in> set (projects scenario_store)"
    "env_bridge_listens scenario_env_exit"
    "env_launch scenario_env_exit = Inr 4242"
    "env_connect scenario_env_exit = Exited (Some 1)"
    by (simp_all add: scenario_start_def scenario_config_def scenario_input_def
          scenario_project_def scenario_store_def scenario_env_exit_def scenario_env_def
          VALID_PERMISSION_MODES_def)
  have e: "env_id scenario_env_exit = ''S''" "env_cli_stderr scenario_env_exit = ''boom''"
    by (simp_all add: scenario_env_exit_def scenario_env_def)
  note inst = exit_marks_session_error
    [where st = scenario_turn_boom and d = scenario_turn_store and sid = "''S''"
       and s = "hd (sessions scenario_turn_store)" and port = 9000 and now = "''t9''"]
  note inst2 = exit_marks_session_error
    [where st = scenario_start and d = scenario_store and cfg = scenario_config
       and port = 9000 and input = scenario_input and proj = scenario_project
       and env = scenario_env_exit and projectId = "''P''" and pid = 4242
       and code = "Some 1"]
  from inst [THEN conjunct1, rule_format] a boom
  have first: "\<exists>st' d'. handleProcessExit ''S'' 9000 ''t9'' scenario_turn_boom = (None, st') \<and>
      store st' = Some d' \<and>
      find (\<lambda>s. s_id s = ''S'') (sessions d') =
        Some ((hd (sessions scenario_turn_store))
                \<lparr>s_status := Error, s_error_message := ''boom'', s_closed_at := Some ''t9''\<rparr>) \<and>
      emitted st' =
        [\<lparr>e_type = ''session.error'', e_session_id = ''S'',
          e_data = ErrorData ''unexpected_exit'' ''boom''\<rparr>]"
    by simp
  from inst2 [THEN conjunct2, rule_format] b e
  have second: "\<exists>st' d' s'. create scenario_config scenario_env_exit ''P'' scenario_project scenario_input
                   scenario_start = (Inl (ExitedBeforeConnect (Some 1)), st') \<and>
      store st' = Some d' \<and> find (\<lambda>s. s_id s = ''S'') (sessions d') = Some s' \<and>
      s_status s' = Error \<and> s_error_message s' = ''boom'' \<and>
      last (emitted st') =
        \<lparr>e_type = ''session.error'', e_session_id = ''S'',
         e_data = ErrorData ''cli_failed_to_connect'' ''boom''\<rparr>"
    by simp
  from a b first second show ?thesis by blast
qed

subsection \<open>Cleanup when \<^verbatim>\<open>create\<close> fails\<close>

text \<open>
  Claim C3 (cleanup on every failure of \<^verbatim>\<open>create\<close>): whatever makes \<^verbatim>\<open>create\<close> fail, the
  allocated port is back in the pool, the bridge server is closed, the CLI is killed and
  the session row is terminal, so that the allocated ports are always the ports of the
  sessions that are not terminal.
  With an invalid permission mode \<^verbatim>\<open>create\<close> throws after \<^verbatim>\<open>allocatePort\<close> and outside
  every \<^verbatim>\<open>try\<close>: port 9000 stays allocated and no session holds it. When the bridge server
  does not come to listen, the port stays allocated too and the row stays \<^verbatim>\<open>starting\<close>.
\<close>

theorem create_failures_that_leak_the_port:
  "create scenario_config scenario_env ''P'' scenario_project
     (scenario_input\<lparr>in_permission_mode := Some ''bogus''\<rparr>) scenario_start
     = (Inl ValidationError, scenario_start\<lparr>usedPorts := {9000}\<rparr>) \<and>
   live_session_ports (scenario_start\<lparr>usedPorts := {9000}\<rparr>) = [] \<and>
   fst (create scenario_config (scenario_env\<lparr>env_bridge_listens := False\<rparr>) ''P''
          scenario_project scenario_input scenario_start) = Inl BridgeError \<and>
   usedPorts (snd (create scenario_config (scenario_env\<lparr>env_bridge_listens := False\<rparr>) ''P''
          scenario_project scenario_input scenario_start)) = {9000} \<and>
   map s_status (sessions (the (store (snd
     (create scenario_config (scenario_env\<lparr>env_bridge_listens := False\<rparr>) ''P''
          scenario_project scenario_input scenario_start))))) = [Starting]"
  by code_simp


subsection \<open>NDJSON framing\<close>

lemma split_on_nonempty [simp]: "split_on sep s \<noteq> []"
  by (induction s) (auto split: list.splits)

lemma split_on_Cons:
  "split_on sep (c # cs) =
     (if c = sep then [] # split_on sep cs
      else (c # hd (split_on sep cs)) # tl (split_on sep cs))"
  by (cases "split_on sep cs") auto

lemma split_on_pieces: "p \<in> set (split_on sep s) \<Longrightarrow> sep \<notin> set p"
  by (induction s arbitrary: p) (auto split: if_splits list.splits)

lemma split_on_no_sep: "sep \<notin> set s \<Longrightarrow> split_on sep s = [s]"
  by (induction s) auto

lemma split_on_line: "sep \<notin> set a \<Longrightarrow> split_on sep (a @ sep # rest) = a # split_on sep rest"
  by (induction a) auto

lemma split_on_append:
  "split_on sep (a @ b)
     = butlast (split_on sep a) @ split_on sep (last (split_on sep a) @ b)"
proof (induction a)
  case Nil
  then show ?case by simp
next
  case (Cons c cs)
  show ?case
  proof (cases "c = sep")
    case True
    then show ?thesis using Cons.IH by simp
  next
    case False
    obtain q qs where q: "split_on sep cs = q # qs"
      by (cases "split_on sep cs") auto
    show ?thesis
    proof (cases qs)
      case Nil
      with q False Cons.IH show ?thesis
        by (simp add: split_on_Cons [of sep c "q @ b"])
    next
      case (Cons r rs)
      with q False Cons.IH show ?thesis by simp
    qed
  qed
qed

lemma deliver_lines_append:
  "deliver_lines parse is_null (xs @ ys)
     = deliver_lines parse is_null xs @ deliver_lines parse is_null ys"
  by (induction xs) (auto simp: Let_def split: option.splits)

lemma feed_all_concat:
  "newline \<notin> set buffer \<Longrightarrow>
   feed_all parse is_null buffer chunks =
     (last (split_on newline (buffer @ concat chunks)),
      deliver_lines parse is_null (butlast (split_on newline (buffer @ concat chunks))))"
proof (induction chunks arbitrary: buffer)
  case Nil
  then show ?case by (simp add: split_on_no_sep)
next
  case (Cons chunk chunks)
  let ?L = "split_on newline (buffer @ chunk)"
  have "last ?L \<in> set ?L" by simp
  then have clean: "newline \<notin> set (last ?L)" by (rule split_on_pieces)
  have whole: "split_on newline (buffer @ concat (chunk # chunks))
                 = butlast ?L @ split_on newline (last ?L @ concat chunks)"
    using split_on_append [of newline "buffer @ chunk" "concat chunks"] by simp
  show ?case
    using Cons.IH [OF clean]
    by (simp add: feed_def Let_def whole butlast_append deliver_lines_append del: concat.simps)
qed

lemma split_on_serialized:
  "\<forall>v\<in>set vs. newline \<notin> set (stringify v) \<Longrightarrow>
   split_on newline (concat (map (serializeNdjson stringify) vs)) = map stringify vs @ [[]]"
  by (induction vs) (auto simp: serializeNdjson_def split_on_line)

lemma deliver_serialized:
  "\<forall>v\<in>set vs. trim (stringify v) \<noteq> [] \<and> parse (trim (stringify v)) = Some v \<Longrightarrow>
   deliver_lines parse is_null (map stringify vs) = filter (\<lambda>v. \<not> is_null v) vs"
  by (induction vs) (auto simp: Let_def)

text \<open>
  What the parser does deliver. Take any finite sequence of values whose JSON texts contain
  no line feed and are read back by \<^verbatim>\<open>JSON.parse\<close> as the values they came from (as the
  texts of \<^verbatim>\<open>JSON.stringify\<close> are); serialize each, concatenate, and cut the result into
  chunks at any positions. Feeding the chunks in order to a new parser delivers the values
  other than \<^verbatim>\<open>null\<close>, once each and in order, and leaves the buffer empty: the framing
  does not depend on the chunk boundaries, and \<^verbatim>\<open>null\<close> is dropped wherever they fall.
\<close>

lemma ndjson_delivers_all_but_null:
  assumes json: "\<forall>v\<in>set vs. newline \<notin> set (stringify v) \<and> trim (stringify v) \<noteq> [] \<and>
                   parse (trim (stringify v)) = Some v"
    and chunks: "concat chunks = concat (map (serializeNdjson stringify) vs)"
  shows "feed_all parse is_null [] chunks = ([], filter (\<lambda>v. \<not> is_null v) vs)"
proof -
  have "split_on newline (concat chunks) = map stringify vs @ [[]]"
    unfolding chunks using json by (intro split_on_serialized) blast
  moreover have "deliver_lines parse is_null (map stringify vs) = filter (\<lambda>v. \<not> is_null v) vs"
    using json by (intro deliver_serialized) blast
  ultimately show ?thesis
    using feed_all_concat [of "[]" parse is_null chunks] by simp
qed

text \<open>Scenario S6: the two objects, fed in single-byte chunks, are delivered in order.\<close>

lemma ndjson_scenario_S6:
  "feed_all json_parse json_is_null []
     (map (\<lambda>c. [c])
        (concat (map (serializeNdjson json_stringify)
                   [JsonObject scenario_a, JsonObject scenario_b])))
     = ([], [JsonObject scenario_a, JsonObject scenario_b])"
proof -
  let ?vs = "[JsonObject scenario_a, JsonObject scenario_b]"
  have a: "newline \<notin> set (json_stringify (JsonObject scenario_a))"
    "trim (json_stringify (JsonObject scenario_a)) \<noteq> []"
    "json_parse (trim (json_stringify (JsonObject scenario_a))) = Some (JsonObject scenario_a)"
    by code_simp+
  have b: "newline \<notin> set (json_stringify (JsonObject scenario_b))"
    "trim (json_stringify (JsonObject scenario_b)) \<noteq> []"
    "json_parse (trim (json_stringify (JsonObject scenario_b))) = Some (JsonObject scenario_b)"
    by code_simp+
  have bytes: "concat (map (\<lambda>c. [c]) cs) = cs" for cs :: string
    by (induction cs) auto
  have "filter (\<lambda>v. \<not> json_is_null v) ?vs = ?vs"
    by (simp add: json_is_null_def)
  with ndjson_delivers_all_but_null
         [of ?vs json_stringify json_parse
             "map (\<lambda>c. [c]) (concat (map (serializeNdjson json_stringify) ?vs))" json_is_null]
       a b bytes
  show ?thesis by simp
qed

text \<open>
  Claim C8 (framing is insensitive to chunk boundaries, every value delivered once): the
  parser does not deliver the JSON value \<^verbatim>\<open>null\<close>. Its text \<^verbatim>\<open>null\<close> is read back by
  \<^verbatim>\<open>JSON.parse\<close> as \<^verbatim>\<open>null\<close>; fed the serialization \<^verbatim>\<open>null\<close> and a line feed, the parser calls
  the callback not at all; and fed the serializations of \<^verbatim>\<open>{"a":1}\<close>, \<^verbatim>\<open>null\<close> and \<^verbatim>\<open>{"b":2}\<close>,
  in one chunk or in single bytes, it calls the callback twice, for the two objects.
\<close>

theorem ndjson_null_is_not_delivered:
  "json_parse (trim (json_stringify JsonNull)) = Some JsonNull \<and>
   feed json_parse json_is_null [] (serializeNdjson json_stringify JsonNull) = ([], []) \<and>
   feed_all json_parse json_is_null []
     [concat (map (serializeNdjson json_stringify)
                [JsonObject scenario_a, JsonNull, JsonObject scenario_b])]
     = ([], [JsonObject scenario_a, JsonObject scenario_b]) \<and>
   feed_all json_parse json_is_null []
     (map (\<lambda>c. [c])
        (concat (map (serializeNdjson json_stringify)
                   [JsonObject scenario_a, JsonNull, JsonObject scenario_b])))
     = ([], [JsonObject scenario_a, JsonObject scenario_b])"
  by code_simp

subsection \<open>Rule update\<close>

lemma column_copy_column:
  "key \<in> set RULE_COLUMNS \<Longrightarrow>
   column c (copy_column key source target)
     = (if c = key then column c source else column c target)"
  by (auto simp: RULE_COLUMNS_def column_def copy_column_def)

lemma allowed_columns_exist: "key \<in> set ALLOWED_COLUMNS \<Longrightarrow> key \<in> set RULE_COLUMNS"
  by (auto simp: ALLOWED_COLUMNS_def RULE_COLUMNS_def)

lemma assign_all_columns:
  assumes "\<forall>(key, v)\<in>set flds. key \<in> set RULE_COLUMNS \<and> (\<exists>r. assign key v old = Inr r)"
    and "distinct (map fst flds)"
  shows "\<exists>new'. assign_all assign flds old new = Inr new' \<and>
           (\<forall>c. column c new'
                  = (case map_of flds c of
                       None \<Rightarrow> column c new
                     | Some v \<Rightarrow> stored assign c v old))"
  using assms
proof (induction flds arbitrary: new)
  case Nil
  then show ?case by simp
next
  case (Cons f flds)
  obtain key v where f: "f = (key, v)" by (cases f)
  from Cons.prems f obtain r where r: "assign key v old = Inr r"
    and col: "key \<in> set RULE_COLUMNS"
    and rest: "\<forall>(key, v)\<in>set flds. key \<in> set RULE_COLUMNS \<and> (\<exists>r. assign key v old = Inr r)"
      "distinct (map fst flds)"
    and fresh: "key \<notin> fst ` set flds"
    by auto
  from fresh have none: "map_of flds key = None"
    by (simp add: map_of_eq_None_iff)
  from Cons.IH [where new = "copy_column key r new", OF rest] obtain new' where
    new': "assign_all assign flds old (copy_column key r new) = Inr new'"
      "\<forall>c. column c new'
             = (case map_of flds c of
                  None \<Rightarrow> column c (copy_column key r new)
                | Some v \<Rightarrow> stored assign c v old)"
    by blast
  have "column c new'
          = (case map_of (f # flds) c of None \<Rightarrow> column c new | Some v \<Rightarrow> stored assign c v old)"
    for c
    using new'(2) none r
    by (simp add: f column_copy_column [OF col] stored_def split: option.splits)
  with new'(1) r show ?case by (simp add: f)
qed

lemma bind_all_None:
  "\<forall>v\<in>set vs. bind_failure v = None \<Longrightarrow> bind_all bind_failure vs = None"
  by (induction vs) auto

lemma update_rows_one:
  assumes "\<forall>r\<in>set rows. r_id r = ruleId \<longrightarrow> r = rule"
    and "assign_all assign flds rule rule = Inr rule'"
  shows "update_rows assign flds ruleId rows
           = Inr (map (\<lambda>r. if r_id r = ruleId then rule' else r) rows)"
  using assms by (induction rows) auto

lemma primary_key_row:
  assumes "distinct (map r_id rows)" and "find (\<lambda>r. r_id r = ruleId) rows = Some rule"
  shows "\<forall>r\<in>set rows. r_id r = ruleId \<longrightarrow> r = rule"
proof -
  from assms(2) have "rule \<in> set rows" "r_id rule = ruleId"
    by (auto simp: find_Some_iff)
  with assms(1) show ?thesis
    by (auto simp: distinct_map inj_on_def)
qed

lemma map_of_update_fields:
  "JUndefined \<notin> snd ` set updates \<Longrightarrow>
   map_of (update_fields updates) c
     = (if c \<in> set ALLOWED_COLUMNS then map_of updates c else None)"
  unfolding update_fields_def
  by (induction updates) (auto split: if_splits)

lemma distinct_update_fields:
  "distinct (map fst updates) \<Longrightarrow> distinct (map fst (update_fields updates))"
  unfolding update_fields_def by (simp add: distinct_map_filter)

lemma find_map_same_key:
  assumes "find (\<lambda>r. r_id r = k) rs = Some r" and "r_id r' = k"
  shows "find (\<lambda>r. r_id r = k) (map (\<lambda>r. if r_id r = k then r' else r) rs) = Some r'"
  using assms by (induction rs) (auto split: if_splits)

text \<open>
  Claim C7 (rule-update field filter): take any store, any existing rule and any payload
  with keys \<open>K\<close>, each carrying a value, such that the store accepts the values the payload
  gives for keys in \<open>{tool_name, rule_content, behavior, priority}\<close>; nothing is assumed of
  what the store would do with any other key or its value. Then \<^verbatim>\<open>updateRule\<close> returns the
  row without an exception, and the columns modified are exactly those of
  \<open>K \<inter> {tool_name, rule_content, behavior, priority}\<close>: each of them holds what the store
  makes of the payload's value, every other column, and so \<^verbatim>\<open>id\<close>, \<^verbatim>\<open>project_id\<close> and
  \<^verbatim>\<open>created_at\<close>, holds what it held, and the other rows and tables are as before. The
  identifiers of the table are distinct (\<^verbatim>\<open>id\<close> is its primary key).
\<close>

theorem updateRule_allowed_columns_only:
  assumes row: "find (\<lambda>r. r_id r = ruleId) (permission_rules d) = Some rule"
    and pk: "distinct (map r_id (permission_rules d))"
    and keys: "distinct (map fst updates)"
    and defined: "JUndefined \<notin> snd ` set updates"
    and accepted:
      "\<forall>(key, v)\<in>set updates.
         key \<in> set ALLOWED_COLUMNS \<longrightarrow>
           bind_failure v = None \<and> (\<exists>r. assign key v rule = Inr r)"
  shows "\<exists>rule'.
           updateRule bind_failure assign (Some d) ruleId updates
             = (Inr (Some rule'),
                Some (d\<lparr>permission_rules :=
                  map (\<lambda>r. if r_id r = ruleId then rule' else r) (permission_rules d)\<rparr>)) \<and>
           (\<forall>(key, v)\<in>set updates.
              key \<in> set ALLOWED_COLUMNS \<longrightarrow> column key rule' = stored assign key v rule) \<and>
           (\<forall>c. c \<notin> fst ` set updates \<inter> set ALLOWED_COLUMNS \<longrightarrow> column c rule' = column c rule) \<and>
           r_id rule' = r_id rule \<and> r_project_id rule' = r_project_id rule \<and>
           r_created_at rule' = r_created_at rule"
proof -
  let ?flds = "update_fields updates"
  let ?table = "\<lambda>rule'. map (\<lambda>r. if r_id r = ruleId then rule' else r) (permission_rules d)"
  have bound: "bind_failure v = None \<and> key \<in> set RULE_COLUMNS \<and> (\<exists>r. assign key v rule = Inr r)"
    if "(key, v) \<in> set ?flds" for key v
  proof -
    from that have "(key, v) \<in> set updates" and key: "key \<in> set ALLOWED_COLUMNS"
      by (simp_all add: update_fields_def)
    with accepted have "bind_failure v = None \<and> (\<exists>r. assign key v rule = Inr r)"
      by blast
    with allowed_columns_exist [OF key] show ?thesis by simp
  qed
  then have store: "\<forall>(key, v)\<in>set ?flds. key \<in> set RULE_COLUMNS \<and> (\<exists>r. assign key v rule = Inr r)"
    by blast
  have columns: "list_all (\<lambda>(key, v). key \<in> set RULE_COLUMNS) ?flds"
    unfolding list_all_iff using bound by blast
  have binds: "\<forall>v\<in>set (map snd ?flds). bind_failure v = None"
    using bound by auto
  from assign_all_columns [where assign = assign and old = rule and new = rule
         and flds = "update_fields updates", OF store distinct_update_fields [OF keys]]
  obtain rule' where all: "assign_all assign ?flds rule rule = Inr rule'"
    and cols: "\<And>c. column c rule'
                 = (case map_of ?flds c of
                      None \<Rightarrow> column c rule
                    | Some v \<Rightarrow> stored assign c v rule)"
    by blast
  have only: "\<forall>r\<in>set (permission_rules d). r_id r = ruleId \<longrightarrow> r = rule"
    using pk row by (rule primary_key_row)
  have untouched: "column c rule' = column c rule" if "c \<notin> fst ` set updates \<inter> set ALLOWED_COLUMNS"
    for c
  proof (cases "c \<in> set ALLOWED_COLUMNS")
    case True
    with that have "c \<notin> fst ` set updates" by simp
    then have "map_of updates c = None" by (simp add: map_of_eq_None_iff)
    then show ?thesis by (simp add: cols map_of_update_fields [OF defined])
  next
    case False
    then show ?thesis by (simp add: cols map_of_update_fields [OF defined])
  qed
  have modified: "column key rule' = stored assign key v rule"
    if "(key, v) \<in> set updates" "key \<in> set ALLOWED_COLUMNS" for key v
  proof -
    from that(1) keys have "map_of updates key = Some v" by simp
    with that(2) show ?thesis by (simp add: cols map_of_update_fields [OF defined])
  qed
  have "column ''id'' rule' = column ''id'' rule"
    "column ''project_id'' rule' = column ''project_id'' rule"
    "column ''created_at'' rule' = column ''created_at'' rule"
    by (rule untouched, simp add: ALLOWED_COLUMNS_def)+
  then have frame: "r_id rule' = r_id rule" "r_project_id rule' = r_project_id rule"
    "r_created_at rule' = r_created_at rule"
    by (auto simp: column_def split: option.splits)
  from row have "r_id rule = ruleId" by (auto simp: find_Some_iff)
  with frame(1) have found: "find (\<lambda>r. r_id r = ruleId) (?table rule') = Some rule'"
    using row by (intro find_map_same_key) auto
  have run: "execute_update_rule bind_failure assign (Some d) ?flds ruleId
               = (None, Some (d\<lparr>permission_rules := ?table rule'\<rparr>))"
    using columns bind_all_None [OF binds] update_rows_one [OF only all]
    by (simp add: execute_update_rule_def getDb_def)
  have result: "updateRule bind_failure assign (Some d) ruleId updates
                  = (Inr (Some rule'), Some (d\<lparr>permission_rules := ?table rule'\<rparr>))"
  proof (cases "?flds = []")
    case True
    with all have same: "rule' = rule" by simp
    have tbl: "?table rule = permission_rules d"
      using only by (intro map_idI) auto
    have "d\<lparr>permission_rules := ?table rule'\<rparr> = d"
      unfolding same tbl by simp
    with True same row show ?thesis
      by (simp add: updateRule_def Let_def select_rule_by_id_def getDb_def)
  next
    case False
    with run found show ?thesis
      by (simp add: updateRule_def Let_def select_rule_by_id_def getDb_def)
  qed
  from result modified untouched frame show ?thesis by blast
qed

theorem updateRule_allowed_columns_only_witness:
  "find (\<lambda>r. r_id r = ''p1'') (permission_rules scenario_S1) = Some (permission_rules scenario_S1 ! 1)
   \<and> distinct (map r_id (permission_rules scenario_S1))
   \<and> distinct (map fst scenario_updates)
   \<and> JUndefined \<notin> snd ` set scenario_updates
   \<and> scenario_bind_failure (JString ''Read'') = None
   \<and> scenario_assign ''tool_name'' (JString ''Read'') (permission_rules scenario_S1 ! 1)
        = Inr ((permission_rules scenario_S1 ! 1)\<lparr>r_tool_name := ''Read''\<rparr>)
   \<and> scenario_bind_failure (JString ''7'') = None
   \<and> scenario_assign ''priority'' (JString ''7'') (permission_rules scenario_S1 ! 1)
        = Inr ((permission_rules scenario_S1 ! 1)\<lparr>r_priority := 7\<rparr>)
   \<and> scenario_assign ''id'' (JString ''other-id'') (permission_rules scenario_S1 ! 1)
        = Inr ((permission_rules scenario_S1 ! 1)\<lparr>r_id := ''other-id''\<rparr>)
   \<and> scenario_assign ''project_id'' JNull (permission_rules scenario_S1 ! 1)
        = Inr ((permission_rules scenario_S1 ! 1)\<lparr>r_project_id := None\<rparr>)
   \<and> scenario_assign ''created_at'' (JString ''2000-01-01'') (permission_rules scenario_S1 ! 1)
        = Inr ((permission_rules scenario_S1 ! 1)\<lparr>r_created_at := ''2000-01-01''\<rparr>)
   \<and> scenario_bind_failure (JBoolean True) = Some BindTypeError
   \<and> updateRule scenario_bind_failure scenario_assign (Some scenario_S1) ''p1'' scenario_updates
        = (Inr (Some \<lparr>r_id = ''p1'', r_project_id = Some ''P'', r_tool_name = ''Read'',
                       r_rule_content = ''rm -rf *'', r_behavior = ''deny'', r_priority = 7,
                       r_created_at = ''t0''\<rparr>),
           Some (scenario_S1\<lparr>permission_rules :=
             [permission_rules scenario_S1 ! 0,
              \<lparr>r_id = ''p1'', r_project_id = Some ''P'', r_tool_name = ''Read'',
               r_rule_content = ''rm -rf *'', r_behavior = ''deny'', r_priority = 7,
               r_created_at = ''t0''\<rparr>]\<rparr>))"
proof -
  let ?rule = "permission_rules scenario_S1 ! 1"
  have row: "find (\<lambda>r. r_id r = ''p1'') (permission_rules scenario_S1) = Some ?rule"
    and pk: "distinct (map r_id (permission_rules scenario_S1))"
    and keys: "distinct (map fst scenario_updates)"
    and defined: "JUndefined \<notin> snd ` set scenario_updates"
    by code_simp+
  have tool: "scenario_bind_failure (JString ''Read'') = None"
    "scenario_assign ''tool_name'' (JString ''Read'') ?rule = Inr (?rule\<lparr>r_tool_name := ''Read''\<rparr>)"
    and priority: "scenario_bind_failure (JString ''7'') = None"
    "scenario_assign ''priority'' (JString ''7'') ?rule = Inr (?rule\<lparr>r_priority := 7\<rparr>)"
    by code_simp+
  have others: 
    "scenario_assign ''id'' (JString ''other-id'') ?rule = Inr (?rule\<lparr>r_id := ''other-id''\<rparr>)"
    "scenario_assign ''project_id'' JNull ?rule = Inr (?rule\<lparr>r_project_id := None\<rparr>)"
    "scenario_assign ''created_at'' (JString ''2000-01-01'') ?rule
       = Inr (?rule\<lparr>r_created_at := ''2000-01-01''\<rparr>)"
    "scenario_bind_failure (JBoolean True) = Some BindTypeError"
    by code_simp+
  have accepted:
    "\<forall>(key, v)\<in>set scenario_updates.
       key \<in> set ALLOWED_COLUMNS \<longrightarrow>
         scenario_bind_failure v = None \<and> (\<exists>r. scenario_assign key v ?rule = Inr r)"
    using tool priority by (simp add: scenario_updates_def ALLOWED_COLUMNS_def)
  have result:
    "updateRule scenario_bind_failure scenario_assign (Some scenario_S1) ''p1'' scenario_updates
        = (Inr (Some \<lparr>r_id = ''p1'', r_project_id = Some ''P'', r_tool_name = ''Read'',
                       r_rule_content = ''rm -rf *'', r_behavior = ''deny'', r_priority = 7,
                       r_created_at = ''t0''\<rparr>),
           Some (scenario_S1\<lparr>permission_rules :=
             [permission_rules scenario_S1 ! 0,
              \<lparr>r_id = ''p1'', r_project_id = Some ''P'', r_tool_name = ''Read'',
               r_rule_content = ''rm -rf *'', r_behavior = ''deny'', r_priority = 7,
               r_created_at = ''t0''\<rparr>]\<rparr>))"
    by code_simp
  from updateRule_allowed_columns_only
         [where bind_failure = scenario_bind_failure and assign = scenario_assign,
          OF row pk keys defined accepted]
    row pk keys defined tool priority others result
  show ?thesis by simp
qed

end
